theory Spec2Isabelle
  imports Complex_Main "HOL-Library.Sublist"
begin

section \<open>TrustDog: deal lifecycle, verification callback, scheduler sweep, settlement\<close>

text \<open>
  A shallow embedding of the worker's deal state machine:
  \<^item> the orchestrator callback handler (routes/orchestrator.ts, \<open>app.post('/callback')\<close>);
  \<^item> the scheduler's duration-completion sweep (index.ts, \<open>processVerificationCompletion\<close>)
    with \<open>processCreatorPayout\<close> and \<open>processRefund\<close>;
  \<^item> the Solana settlement executors (routes/solana.ts, \<open>processPayoutInternal\<close>,
    \<open>processRefundInternal\<close>);
  \<^item> the submit-post handler's schedule ladder and the cancel handler (routes/deals.ts).

  Conventions. JavaScript numbers that come out of JSON are modelled as exact rationals
  (\<open>num\<close>), the value of the literal; the sweep's completion time is computed in doubles,
  as the source computes it. Instants are milliseconds since the epoch (\<open>int\<close>), the
  value of \<open>Date.getTime()\<close>. The relational store is a record of tables, each a list of rows,
  and every store operation succeeds (the persistence engine is an external collaborator).
  A handler reads the clock once: \<open>now\<close> is a parameter. Logs, notifications, e-mail and
  the notification queue of the review service change none of the tables below and are
  left out; wallet addresses are taken to be well-formed keys.
\<close>

subsection \<open>Numbers and strings\<close>

type_synonym num = rat

text \<open>\<open>x || d\<close> on an optional number: \<open>undefined\<close>, \<open>null\<close> and \<open>0\<close> are falsy.\<close>

definition num_or :: "num option \<Rightarrow> num \<Rightarrow> num" where
  "num_or x d = (case x of None \<Rightarrow> d | Some v \<Rightarrow> if v = 0 then d else v)"

text \<open>\<open>x || d\<close> on an optional string: \<open>undefined\<close>, \<open>null\<close> and \<open>''\<close> are falsy.\<close>

definition str_or :: "string option \<Rightarrow> string \<Rightarrow> string" where
  "str_or x d = (case x of None \<Rightarrow> d | Some v \<Rightarrow> if v = [] then d else v)"

definition truthy_str :: "string option \<Rightarrow> bool" where
  "truthy_str x = (case x of None \<Rightarrow> False | Some v \<Rightarrow> v \<noteq> [])"

text \<open>\<open>new Date(t)\<close> keeps the integral part of a time value (TimeClip).\<close>

definition time_clip :: "rat \<Rightarrow> int" where
  "time_clip r = (if 0 \<le> r then \<lfloor>r\<rfloor> else \<lceil>r\<rceil>)"

text \<open>
  IEEE 754 binary64, for the one computation below whose result depends on the rounding
  (the completion time of the sweep). \<open>double x\<close> is the double nearest to the rational
  \<open>x\<close>, ties to the even significand: 53 significant bits, and the fixed quantum
  \<open>2^-1074\<close> below \<open>2^-1022\<close>. The exponent is not bounded above: where the source
  overflows to an infinity the model has a finite value of at least \<open>2^1023\<close>, and
  both are far outside the range of a \<open>Date\<close>.
\<close>

function bit_length :: "int \<Rightarrow> int" where
  "bit_length n = (if n \<le> 0 then 0 else 1 + bit_length (n div 2))"
  by pat_completeness auto
termination
  by (relation "measure nat") auto

declare bit_length.simps [simp del]

function pow2 :: "int \<Rightarrow> rat" where
  "pow2 k = (if k = 0 then 1 else if 0 < k then 2 * pow2 (k - 1) else pow2 (k + 1) / 2)"
  by pat_completeness auto
termination
  by (relation "measure (\<lambda>k. nat \<bar>k\<bar>)") auto

declare pow2.simps [simp del]

text \<open>The exponent of a positive rational: \<open>pow2 (ilog2 x) \<le> x < pow2 (ilog2 x + 1)\<close>.\<close>

definition ilog2 :: "rat \<Rightarrow> int" where
  "ilog2 x =
     (let k = bit_length (fst (quotient_of x)) - bit_length (snd (quotient_of x))
      in if pow2 k \<le> x then k else k - 1)"

definition round_half_even :: "rat \<Rightarrow> int" where
  "round_half_even m =
     (let f = \<lfloor>m\<rfloor>; d = m - of_int f
      in if d < 1 / 2 then f else if 1 / 2 < d then f + 1 else if even f then f else f + 1)"

definition double :: "rat \<Rightarrow> rat" where
  "double x =
     (if x = 0 then 0
      else (let q = pow2 (max (ilog2 \<bar>x\<bar>) (- 1022) - 52)
            in of_int (round_half_even (x / q)) * q))"

text \<open>
  \<open>new Date(v)\<close> for a number \<open>v\<close>: a time value beyond 8.64e15 ms on either side gives
  the Invalid Date (\<open>None\<close>), whose \<open>toISOString()\<close> throws a \<open>RangeError\<close>.
\<close>

definition MAX_TIME :: int where
  "MAX_TIME = 8640000000000000"

definition new_Date :: "rat \<Rightarrow> int option" where
  "new_Date v = (if of_int MAX_TIME < \<bar>v\<bar> then None else Some (time_clip v))"

text \<open>\<open>Math.round\<close>: the nearest integer, ties towards plus infinity.\<close>

definition math_round :: "rat \<Rightarrow> int" where
  "math_round r = \<lfloor>r + 1 / 2\<rfloor>"

definition digit_char :: "nat \<Rightarrow> char" where
  "digit_char n = ''0123456789'' ! n"

text \<open>The decimal digits of a non-negative integer.\<close>

function show_nat :: "int \<Rightarrow> string" where
  "show_nat n =
     (if n < 10 then [digit_char (nat n)]
      else show_nat (n div 10) @ [digit_char (nat (n mod 10))])"
  by pat_completeness auto
termination
  by (relation "measure nat") auto

declare show_nat.simps [simp del]

definition show_int :: "int \<Rightarrow> string" where
  "show_int i = (if i < 0 then CHR ''-'' # show_nat (- i) else show_nat i)"

text \<open>
  The decimal digits of a fraction in \<open>[0, 1)\<close>, at most \<open>k\<close> of them, stopping when the
  expansion ends.
\<close>

fun frac_digits :: "nat \<Rightarrow> rat \<Rightarrow> string" where
  "frac_digits 0 r = []"
| "frac_digits (Suc k) r =
     (if r = 0 then []
      else digit_char (nat \<lfloor>r * 10\<rfloor>) # frac_digits k (r * 10 - of_int \<lfloor>r * 10\<rfloor>))"

text \<open>
  Number to string, as a template literal \<open>`${x}`\<close> does it. Exact on integers and on
  short terminating decimals (\<open>24\<close>, \<open>0.0833\<close>), the values the handlers print.
\<close>

definition js_num_str :: "num \<Rightarrow> string" where
  "js_num_str r =
     (if r = of_int \<lfloor>r\<rfloor> then show_int \<lfloor>r\<rfloor>
      else (if r < 0 then ''-'' else '''') @ show_nat \<lfloor>\<bar>r\<bar>\<rfloor> @ ''.'' @
           frac_digits 17 (\<bar>r\<bar> - of_int \<lfloor>\<bar>r\<bar>\<rfloor>))"

text \<open>\<open>Array.prototype.join(sep)\<close>.\<close>

fun js_join :: "string \<Rightarrow> string list \<Rightarrow> string" where
  "js_join sep [] = []"
| "js_join sep [x] = x"
| "js_join sep (x # y # ys) = x @ sep @ js_join sep (y # ys)"

text \<open>
  \<open>.single()\<close> of the store client: the row when exactly one row matches, an error (no
  data) otherwise.
\<close>

definition single :: "'a list \<Rightarrow> 'a option" where
  "single xs = (case xs of [x] \<Rightarrow> Some x | _ \<Rightarrow> None)"

subsection \<open>The callback payload\<close>

text \<open>
  The two payload shapes of the orchestrator:
  \<open>{status, data: {deal_id, analysis: {overall_score, proof_verification: {...}}, analyses}}\<close>
  and the legacy \<open>{deal_id, verification_status, overall_score}\<close>. A field that is absent
  (or \<open>null\<close>) is \<open>None\<close>. Display-only members (texts, evidence, file lists) are left out.
\<close>

record proof_verification =
  overall_confidence :: "num option"
  requirements_met :: "string list option"
  requirements_failed :: "string list option"

record analysis =
  an_overall_score :: "num option"
  an_proof_verification :: "proof_verification option"

record callback_data =
  cd_deal_id :: "string option"
  cd_analysis :: "analysis option"
  cd_analyses :: "string list option"
  cd_error :: "string option"
  cd_post_url :: "string option"

record request_body =
  rb_status :: "string option"
  rb_data :: "callback_data option"
  rb_deal_id :: "string option"
  rb_verification_status :: "string option"
  rb_overall_score :: "num option"
  rb_error :: "string option"
  rb_error_message :: "string option"
  rb_requestId :: "string option"

text \<open>\<open>requestBody.data?.analysis?.overall_score\<close> and its neighbours.\<close>

definition data_analysis :: "request_body \<Rightarrow> analysis option" where
  "data_analysis rb = (case rb_data rb of None \<Rightarrow> None | Some d \<Rightarrow> cd_analysis d)"

definition data_overall_score :: "request_body \<Rightarrow> num option" where
  "data_overall_score rb = (case data_analysis rb of None \<Rightarrow> None | Some a \<Rightarrow> an_overall_score a)"

definition data_proof_verification :: "request_body \<Rightarrow> proof_verification option" where
  "data_proof_verification rb =
     (case data_analysis rb of None \<Rightarrow> None | Some a \<Rightarrow> an_proof_verification a)"

definition data_overall_confidence :: "request_body \<Rightarrow> num option" where
  "data_overall_confidence rb =
     (case data_proof_verification rb of None \<Rightarrow> None | Some p \<Rightarrow> overall_confidence p)"

definition data_requirements_failed :: "request_body \<Rightarrow> string list option" where
  "data_requirements_failed rb =
     (case data_proof_verification rb of None \<Rightarrow> None | Some p \<Rightarrow> requirements_failed p)"

definition data_deal_id :: "request_body \<Rightarrow> string option" where
  "data_deal_id rb = (case rb_data rb of None \<Rightarrow> None | Some d \<Rightarrow> cd_deal_id d)"

definition data_analyses :: "request_body \<Rightarrow> string list option" where
  "data_analyses rb = (case rb_data rb of None \<Rightarrow> None | Some d \<Rightarrow> cd_analyses d)"

definition data_error :: "request_body \<Rightarrow> string option" where
  "data_error rb = (case rb_data rb of None \<Rightarrow> None | Some d \<Rightarrow> cd_error d)"

subsection \<open>Normalisation of the payload (orchestrator.ts, lines 289-312)\<close>

record parsed_callback =
  dealId :: "string option"
  verificationStatus :: string
  overallScore :: num

definition parse_callback :: "request_body \<Rightarrow> parsed_callback" where
  "parse_callback rb =
     (if rb_data rb \<noteq> None \<and> truthy_str (data_deal_id rb) then
        \<lparr> dealId = data_deal_id rb,
          verificationStatus = (if rb_status rb = Some ''completed'' then ''completed'' else ''failed''),
          overallScore = num_or (data_overall_score rb) 0 \<rparr>
      else if truthy_str (rb_deal_id rb) then
        \<lparr> dealId = rb_deal_id rb,
          verificationStatus = str_or (rb_verification_status rb) ''error'',
          overallScore = num_or (rb_overall_score rb) 0 \<rparr>
      else
        \<lparr> dealId = None, verificationStatus = ''error'', overallScore = 0 \<rparr>)"

subsection \<open>The status decision (orchestrator.ts, lines 426-466)\<close>

datatype deal_status =
  PendingAcceptance | PendingFunding | PendingVerification | Verifying
  | Completed | Failed | Cancelled

record decision =
  finalStatus :: deal_status
  failureReason :: "string option"
  shouldCreateHITLReview :: bool

text \<open>\<open>requestBody.data?.analysis?.proof_verification?.overall_confidence || score\<close>.\<close>

definition confidence_of :: "request_body \<Rightarrow> num \<Rightarrow> num" where
  "confidence_of rb score = num_or (data_overall_confidence rb) score"

definition decide :: "request_body \<Rightarrow> string \<Rightarrow> num \<Rightarrow> decision" where
  "decide rb vstatus score =
     (if vstatus = ''error'' then
        \<lparr> finalStatus = Verifying,
          failureReason = Some (''Orchestrator error: '' @ str_or (rb_error_message rb) ''Unknown error''),
          shouldCreateHITLReview = True \<rparr>
      else if vstatus = ''failed'' then
        \<lparr> finalStatus = Failed,
          failureReason = Some (''Verification failed - Score: '' @ js_num_str score @ ''/100''),
          shouldCreateHITLReview = False \<rparr>
      else
        (let confidence = confidence_of rb score;
             requirementsFailed = (case data_requirements_failed rb of None \<Rightarrow> [] | Some l \<Rightarrow> l)
         in if length requirementsFailed > 0 then
              \<lparr> finalStatus = Failed,
                failureReason = Some (''Verification requirements not met: '' @
                                      js_join '', '' requirementsFailed),
                shouldCreateHITLReview = False \<rparr>
            else if score \<ge> 80 then
              \<lparr> finalStatus = Verifying, failureReason = None, shouldCreateHITLReview = False \<rparr>
            else if score \<ge> 60 \<or> confidence < 70 then
              \<lparr> finalStatus = Verifying, failureReason = None, shouldCreateHITLReview = True \<rparr>
            else
              \<lparr> finalStatus = Failed,
                failureReason = Some (''Low verification confidence: '' @ js_num_str score @ ''/100''),
                shouldCreateHITLReview = False \<rparr>))"

subsection \<open>The store\<close>

text \<open>
  One record per table, with the columns the handlers read or write. \<open>orchestrator_result\<close>
  holds the stored (enriched) callback payload. Transaction signatures and provider
  references are assigned by the payment backends and are not part of the rows here.
\<close>

record deal =
  d_id :: string
  advertiser_id :: string
  creator_id :: "string option"
  d_status :: deal_status
  failure_reason :: "string option"
  verification_score :: "num option"
  last_verification_at :: "int option"
  posted_at :: "int option"
  orchestrator_result :: "request_body option"
  post_url :: "string option"
  amount_usdc :: num
  deadline_iso :: int
  cancelled_at :: "int option"
  updated_at :: "int option"

record proof_spec =
  ps_deal_id :: string
  duration_hours :: "num option"

record identity =
  i_id :: string
  solana_wallet_address :: "string option"
  stripe_connect_account_id :: "string option"

record escrow_event =
  e_deal_id :: string
  e_event_type :: string
  e_amount_usdc :: num
  e_payment_method :: "string option"
  e_tx_ref :: "string option"
  e_solana_signature :: "string option"

record payout =
  p_deal_id :: string
  p_method :: string
  p_status :: string
  p_amount_usdc :: num
  p_destination_account_id :: "string option"

record refund =
  r_deal_id :: string
  r_amount_usdc :: num
  r_reason :: string
  r_status :: string
  r_stripe_refund_id :: "string option"

datatype check_type = Initial | Periodic | Final

datatype schedule_status =
  SPending | SRunning | SCompleted | SFailed | SExpired | SCancelled

record verification_schedule =
  vs_deal_id :: string
  scheduled_at :: int
  vs_check_type :: check_type
  vs_status :: schedule_status
  vs_completed_at :: "int option"
  vs_orchestrator_request_id :: "string option"
  vs_confidence_score :: "num option"
  vs_notes :: "string option"

record review =
  rv_deal_id :: string
  rv_run_id :: "string option"
  rv_reason_code :: "string option"
  rv_priority :: string
  rv_status :: string
  rv_opened_at :: "int option"

text \<open>
  The payment backends, as ledgers: the platform wallet's balance in lamports with the
  transfers sent from it (destination, lamports), and the refunds requested from Stripe
  (payment intent, reason). A transfer costs the sender its amount and the network fee.
\<close>

record solana_chain =
  platform_balance :: int
  transfers :: "(string \<times> int) list"

record world =
  deals :: "deal list"
  proof_specs :: "proof_spec list"
  identities :: "identity list"
  escrow_events :: "escrow_event list"
  payouts :: "payout list"
  refunds :: "refund list"
  reviews :: "review list"
  verification_schedules :: "verification_schedule list"
  chain :: solana_chain
  stripe_refunds :: "(string option \<times> string) list"
  test_results_kv :: "(string \<times> string \<times> num) list"

record env =
  HITL_ENABLED :: bool
  ORCHESTRATOR_ENABLED :: bool

definition deal_by_id :: "world \<Rightarrow> string \<Rightarrow> deal option" where
  "deal_by_id w i = single (filter (\<lambda>d. d_id d = i) (deals w))"

definition update_deal :: "string \<Rightarrow> (deal \<Rightarrow> deal) \<Rightarrow> world \<Rightarrow> world" where
  "update_deal i f w = w\<lparr>deals := map (\<lambda>d. if d_id d = i then f d else d) (deals w)\<rparr>"

text \<open>The embedded relation \<open>identities!deals_..._fkey(...)\<close>: the row the foreign key names.\<close>

definition identity_of :: "world \<Rightarrow> string option \<Rightarrow> identity option" where
  "identity_of w uid =
     (case uid of None \<Rightarrow> None | Some u \<Rightarrow> find (\<lambda>i. i_id i = u) (identities w))"

definition wallet_of :: "world \<Rightarrow> string option \<Rightarrow> string option" where
  "wallet_of w uid =
     (case identity_of w uid of None \<Rightarrow> None | Some i \<Rightarrow> solana_wallet_address i)"

subsection \<open>Solana settlement (solana.ts)\<close>

definition RENT_EXEMPT_MINIMUM :: int where "RENT_EXEMPT_MINIMUM = 890880"
definition TX_FEE :: int where "TX_FEE = 5000"
definition RESERVE :: int where "RESERVE = RENT_EXEMPT_MINIMUM + TX_FEE"

definition send_transfer :: "string \<Rightarrow> int \<Rightarrow> solana_chain \<Rightarrow> solana_chain" where
  "send_transfer dest lamports c =
     c\<lparr>platform_balance := platform_balance c - lamports - TX_FEE,
       transfers := transfers c @ [(dest, lamports)]\<rparr>"

definition sol :: "int \<Rightarrow> string" where
  "sol lamports = js_num_str (of_int lamports / 1000000000)"

text \<open>
  \<open>processPayoutInternal(env, deal_id)\<close>: \<open>Inl\<close> is the message of the \<open>Error\<close> it throws
  (the world is then unchanged), \<open>Inr\<close> the world after the transfer and the payout row.
\<close>

definition processPayoutInternal :: "string \<Rightarrow> world \<Rightarrow> string + world" where
  "processPayoutInternal deal_id w =
     (case deal_by_id w deal_id of
        None \<Rightarrow> Inl ''Deal not found''
      | Some deal \<Rightarrow>
          if d_status deal \<noteq> Completed then Inl ''Deal must be Completed before releasing escrow''
          else if \<not> truthy_str (wallet_of w (creator_id deal)) then
            Inl ''Creator has not connected Solana wallet''
          else
            (let creatorWallet = the (wallet_of w (creator_id deal));
                 lamports = math_round (amount_usdc deal * 1000000000);
                 platformBalance = platform_balance (chain w)
             in if platformBalance < lamports + RESERVE then
                  Inl (''Insufficient platform balance. Have '' @ sol platformBalance @
                       '' SOL, need '' @ sol (lamports + RESERVE) @ '' SOL'')
                else
                  Inr (w\<lparr>chain := send_transfer creatorWallet lamports (chain w),
                          payouts := payouts w @
                            [\<lparr> p_deal_id = deal_id, p_method = ''Solana'', p_status = ''Completed'',
                               p_amount_usdc = amount_usdc deal,
                               p_destination_account_id = None \<rparr>]\<rparr>)))"

definition processRefundInternal :: "string \<Rightarrow> string \<Rightarrow> world \<Rightarrow> string + world" where
  "processRefundInternal deal_id reason w =
     (case deal_by_id w deal_id of
        None \<Rightarrow> Inl ''Deal not found''
      | Some deal \<Rightarrow>
          if d_status deal \<noteq> Failed \<and> d_status deal \<noteq> Cancelled then
            Inl ''Deal must be Failed or Cancelled to process refund''
          else if \<not> truthy_str (wallet_of w (Some (advertiser_id deal))) then
            Inl ''Advertiser has not connected Solana wallet''
          else
            (let advertiserWallet = the (wallet_of w (Some (advertiser_id deal)));
                 totalRefund = amount_usdc deal;
                 refundLamports = math_round (totalRefund * 1000000000);
                 platformBalance = platform_balance (chain w)
             in if platformBalance < refundLamports + RESERVE then
                  Inl (''Insufficient platform balance for refund. Have '' @ sol platformBalance @
                       '' SOL, need '' @ sol (refundLamports + RESERVE) @ '' SOL'')
                else
                  Inr (w\<lparr>chain := send_transfer advertiserWallet refundLamports (chain w),
                          refunds := refunds w @
                            [\<lparr> r_deal_id = deal_id, r_amount_usdc = totalRefund, r_reason = reason,
                               r_status = ''completed'', r_stripe_refund_id = None \<rparr>]\<rparr>)))"

text \<open>
  \<open>POST /v1/solana/refund-escrow\<close> called with the internal secret: \<open>Inl\<close> is the
  \<open>error\<close> member of a non-2xx response.
\<close>

definition refund_escrow :: "string \<Rightarrow> string \<Rightarrow> world \<Rightarrow> string + world" where
  "refund_escrow deal_id reason w =
     (if deal_id = [] \<or> reason = [] then Inl ''deal_id and reason are required''
      else case processRefundInternal deal_id reason w of
             Inl msg \<Rightarrow> Inl (if msg = [] then ''Failed to refund escrow'' else msg)
           | Inr w' \<Rightarrow> Inr w')"

text \<open>\<open>POST /v1/solana/release-escrow\<close>, likewise.\<close>

definition release_escrow :: "string \<Rightarrow> world \<Rightarrow> string + world" where
  "release_escrow deal_id w =
     (if deal_id = [] then Inl ''deal_id is required''
      else case processPayoutInternal deal_id w of
             Inl msg \<Rightarrow> Inl (if msg = [] then ''Failed to release escrow'' else msg)
           | Inr w' \<Rightarrow> Inr w')"

subsection \<open>Payout and refund triggers of the scheduler (index.ts)\<close>

text \<open>
  \<open>escrowEvent?.payment_method || 'stripe'\<close> for the escrow event of a given type: how
  \<open>processCreatorPayout\<close> and \<open>processAutomaticRefund\<close> find the payment method.
\<close>

definition escrow_event_of :: "world \<Rightarrow> string \<Rightarrow> string \<Rightarrow> escrow_event option" where
  "escrow_event_of w i ty =
     single (filter (\<lambda>e. e_deal_id e = i \<and> e_event_type e = ty) (escrow_events w))"

definition created_payment_method :: "world \<Rightarrow> string \<Rightarrow> string" where
  "created_payment_method w i =
     str_or (case escrow_event_of w i ''Created'' of
               None \<Rightarrow> None | Some e \<Rightarrow> e_payment_method e) ''stripe''"

definition stripe_account_of :: "world \<Rightarrow> string option \<Rightarrow> string option" where
  "stripe_account_of w uid =
     (case identity_of w uid of None \<Rightarrow> None | Some i \<Rightarrow> stripe_connect_account_id i)"

definition processCreatorPayout :: "string \<Rightarrow> world \<Rightarrow> string + world" where
  "processCreatorPayout i w =
     (case deal_by_id w i of
        None \<Rightarrow> Inl ''Deal not found''
      | Some deal \<Rightarrow>
          if created_payment_method w i = ''solana'' then
            (if \<not> truthy_str (wallet_of w (creator_id deal)) then
               Inl ''Creator Solana wallet not connected''
             else processPayoutInternal i w)
          else if \<not> truthy_str (stripe_account_of w (creator_id deal)) then
            Inl ''Creator Stripe account not found''
          else
            Inr (w\<lparr>payouts := payouts w @
                   [\<lparr> p_deal_id = i, p_method = ''stripe'', p_status = ''pending_settlement'',
                      p_amount_usdc = amount_usdc deal,
                      p_destination_account_id = stripe_account_of w (creator_id deal) \<rparr>]\<rparr>))"

text \<open>The id Stripe gives a new refund: a fresh name, here numbered.\<close>

definition stripe_refund_id :: "world \<Rightarrow> string" where
  "stripe_refund_id w = ''re_'' @ show_nat (int (length (stripe_refunds w)))"

text \<open>
  \<open>processRefund\<close> after its two early returns: the Solana branch posts to
  \<open>/v1/solana/refund-escrow\<close>, the Stripe branch creates the refund and records it.
\<close>

definition processRefund_act :: "string \<Rightarrow> string \<Rightarrow> escrow_event \<Rightarrow> world \<Rightarrow> string + world" where
  "processRefund_act i reason escrow w =
     (if str_or (e_payment_method escrow) ''stripe'' = ''solana'' then
        (case refund_escrow i reason w of
           Inl err \<Rightarrow> Inl (''Solana refund failed: '' @ (if err = [] then ''Unknown error'' else err))
         | Inr w' \<Rightarrow> Inr w')
      else
        Inr (w\<lparr>stripe_refunds := stripe_refunds w @
                  [(e_tx_ref escrow, if reason = ''dispute'' then ''fraudulent''
                                     else ''requested_by_customer'')],
                refunds := refunds w @
                  [\<lparr> r_deal_id = i, r_amount_usdc = e_amount_usdc escrow, r_reason = reason,
                     r_status = ''processing'', r_stripe_refund_id = Some (stripe_refund_id w) \<rparr>],
                escrow_events := escrow_events w @
                  [\<lparr> e_deal_id = i, e_event_type = ''Refunded'',
                     e_amount_usdc = e_amount_usdc escrow, e_payment_method = None,
                     e_tx_ref = Some (stripe_refund_id w), e_solana_signature = None \<rparr>]\<rparr>))"

definition processRefund :: "string \<Rightarrow> string \<Rightarrow> world \<Rightarrow> string + world" where
  "processRefund i reason w =
     (case escrow_event_of w i ''FundEscrow'' of
        None \<Rightarrow> Inr w
      | Some escrow \<Rightarrow>
          (case single (filter (\<lambda>r. r_deal_id r = i) (refunds w)) of
             None \<Rightarrow> processRefund_act i reason escrow w
           | Some existingRefund \<Rightarrow>
               if r_status existingRefund = ''completed'' then Inr w
               else if r_status existingRefund = ''processing'' then Inr w
               else processRefund_act i reason escrow w))"

subsection \<open>The duration-completion sweep (index.ts, processVerificationCompletion)\<close>

record deal_diagnostic =
  dg_deal_id :: string
  dg_duration_met :: bool
  dg_has_success :: bool
  dg_action :: string
  dg_settlement_error :: "string option"

text \<open>
  An entry of \<open>diagnostics.skipped\<close>: the diagnostic of a deal that is not due, or
  \<open>{ deal_id, error }\<close> for a deal whose processing threw.
\<close>

datatype skipped_entry = NotDue deal_diagnostic | DealError string string

record diagnostics =
  dg_candidates :: nat
  dg_completed :: "deal_diagnostic list"
  dg_failed :: "deal_diagnostic list"
  dg_skipped :: "skipped_entry list"

definition completion_candidates :: "world \<Rightarrow> deal list" where
  "completion_candidates w =
     filter (\<lambda>d. d_status d = Verifying \<and> last_verification_at d \<noteq> None \<and> posted_at d \<noteq> None)
       (deals w)"

text \<open>
  What a select returns for a deal: the columns of \<open>deals\<close>, and the embedded
  \<open>proof_specs\<close> relation only when the select list names it. \<open>select('*')\<close> names the
  columns alone; \<open>select('..., proof_specs(duration_hours)')\<close> embeds the deal's proof spec.
\<close>

record deal_row =
  row_deal :: deal
  row_proof_specs :: "proof_spec option"

definition select_star :: "deal \<Rightarrow> deal_row" where
  "select_star d = \<lparr> row_deal = d, row_proof_specs = None \<rparr>"

definition select_with_proof_specs :: "world \<Rightarrow> deal \<Rightarrow> deal_row" where
  "select_with_proof_specs w d =
     \<lparr> row_deal = d, row_proof_specs = find (\<lambda>p. ps_deal_id p = d_id d) (proof_specs w) \<rparr>"

text \<open>
  \<open>row.proof_specs?.duration_hours || 24\<close>. The number is falsy when the double it is read
  as is zero; it is kept as its literal, which is how a template literal prints it.
\<close>

definition row_durationHours :: "deal_row \<Rightarrow> num" where
  "row_durationHours r =
     (case row_proof_specs r of
        None \<Rightarrow> 24
      | Some p \<Rightarrow>
          (case duration_hours p of
             None \<Rightarrow> 24
           | Some v \<Rightarrow> if double v = 0 then 24 else v))"

definition durationHours_of :: "world \<Rightarrow> deal \<Rightarrow> num" where
  "durationHours_of w d = row_durationHours (select_with_proof_specs w d)"

text \<open>
  \<open>durationMs = durationHours * 60 * 60 * 1000\<close> and
  \<open>completionTime = new Date(postedAt.getTime() + durationMs)\<close> (index.ts, lines 1111-1116),
  every operation rounded to a double. \<open>posted_at\<close> is the instant the column's string
  denotes; outside the range of a \<open>Date\<close> its \<open>getTime()\<close> is \<open>NaN\<close> and so is the sum.
  \<open>None\<close> is the Invalid Date.
\<close>

definition completionTime :: "world \<Rightarrow> deal \<Rightarrow> int option" where
  "completionTime w d =
     (case new_Date (of_int (the (posted_at d))) of
        None \<Rightarrow> None
      | Some postedAt \<Rightarrow>
          (let durationMs =
                 double (double (double (double (durationHours_of w d) * 60) * 60) * 1000)
           in new_Date (double (of_int postedAt + durationMs))))"

definition ge80 :: "num option \<Rightarrow> bool" where
  "ge80 x = (case x of None \<Rightarrow> False | Some v \<Rightarrow> v \<ge> 80)"

definition hasVerificationSuccess :: "deal \<Rightarrow> bool" where
  "hasVerificationSuccess d =
     (ge80 (verification_score d) \<or>
      ge80 (case orchestrator_result d of None \<Rightarrow> None | Some rb \<Rightarrow> data_overall_score rb))"

definition mark_pending_schedules ::
  "string \<Rightarrow> schedule_status \<Rightarrow> string \<Rightarrow> world \<Rightarrow> world" where
  "mark_pending_schedules i st note w =
     w\<lparr>verification_schedules :=
         map (\<lambda>s. if vs_deal_id s = i \<and> vs_status s = SPending
                   then s\<lparr>vs_status := st, vs_notes := Some note\<rparr> else s)
           (verification_schedules w)\<rparr>"

text \<open>
  The body of the loop over the candidates, for one candidate row of the snapshot. \<open>now\<close>
  is the scheduler's \<open>new Date()\<close>, a valid instant. Building the diagnostic calls
  \<open>completionTime.toISOString()\<close>, which throws on the Invalid Date: the loop's \<open>catch\<close>
  then records the deal under \<open>skipped\<close> with the error and goes on.
\<close>

definition process_candidate ::
  "int \<Rightarrow> world \<Rightarrow> deal \<Rightarrow> world \<times> diagnostics \<Rightarrow> world \<times> diagnostics" where
  "process_candidate now w0 deal acc =
     (let w = fst acc; dg = snd acc;
          durationHours = durationHours_of w0 deal
      in case completionTime w0 deal of
        None \<Rightarrow>
          (w, dg\<lparr>dg_skipped := dg_skipped dg @ [DealError (d_id deal) ''Invalid time value'']\<rparr>)
      | Some ct \<Rightarrow>
         (let diag = \<lparr> dg_deal_id = d_id deal, dg_duration_met = (now \<ge> ct),
                       dg_has_success = False, dg_action = ''none'',
                       dg_settlement_error = None \<rparr>
          in if now \<ge> ct then
           (if hasVerificationSuccess deal then
              (let w1 = update_deal (d_id deal)
                          (\<lambda>d. d\<lparr>d_status := Completed, updated_at := Some now\<rparr>) w;
                   w2 = mark_pending_schedules (d_id deal) SCompleted
                          ''Deal completed - duration requirement met'' w1;
                   diag' = diag\<lparr>dg_has_success := True, dg_action := ''complete''\<rparr>
               in case processCreatorPayout (d_id deal) w2 of
                    Inr w3 \<Rightarrow> (w3, dg\<lparr>dg_completed := dg_completed dg @ [diag']\<rparr>)
                  | Inl err \<Rightarrow>
                      (w2, dg\<lparr>dg_completed := dg_completed dg @
                                 [diag'\<lparr>dg_settlement_error := Some err\<rparr>]\<rparr>))
            else
              (let w1 = update_deal (d_id deal)
                          (\<lambda>d. d\<lparr>d_status := Failed,
                                  failure_reason := Some (''Duration completed ('' @
                                    js_num_str durationHours @
                                    ''h) without successful verification''),
                                  updated_at := Some now\<rparr>) w;
                   w2 = mark_pending_schedules (d_id deal) SCancelled
                          ''Deal failed - duration completed without successful verification'' w1;
                   diag' = diag\<lparr>dg_action := ''fail''\<rparr>
               in case processRefund (d_id deal) ''verification_failed'' w2 of
                    Inr w3 \<Rightarrow> (w3, dg\<lparr>dg_failed := dg_failed dg @ [diag']\<rparr>)
                  | Inl err \<Rightarrow>
                      (w2, dg\<lparr>dg_failed := dg_failed dg @
                                 [diag'\<lparr>dg_settlement_error := Some err\<rparr>]\<rparr>)))
         else (w, dg\<lparr>dg_skipped := dg_skipped dg @
                       [NotDue (diag\<lparr>dg_action := ''skip_not_due''\<rparr>)]\<rparr>)))"

text \<open>
  The sweep: the candidates are read once, with their proof specs, and the loop runs over
  that snapshot while the store changes under it.
\<close>

definition processVerificationCompletion :: "int \<Rightarrow> world \<Rightarrow> world \<times> diagnostics" where
  "processVerificationCompletion now w =
     fold (process_candidate now w) (completion_candidates w)
       (w, \<lparr> dg_candidates = length (completion_candidates w),
              dg_completed = [], dg_failed = [], dg_skipped = [] \<rparr>)"


subsection \<open>The orchestrator callback handler (orchestrator.ts, POST /callback)\<close>

text \<open>
  The request: the \<open>Authorization\<close> header and the body as \<open>c.req.json()\<close> reads it. A body
  that is not JSON is \<open>Unparseable\<close>; the JSON value \<open>null\<close> is \<open>JsonNull\<close>; an object is
  \<open>JsonObject\<close> (another JSON value has none of the members the handler reads, like the
  object with every field absent).
\<close>

datatype json_body = Unparseable | JsonNull | JsonObject request_body

record callback_request =
  cb_authorization :: "string option"
  cb_body :: json_body

datatype callback_response =
  Unauthorized401
  | InvalidJsonBody400
  | MissingDealId400
  | TestDeal200 string num string
  | DealNotFound404
  | Success200 deal_status num

definition expectedAuth :: string where
  "expectedAuth = ''Bearer trustdog-callback-secret-token-2024''"

definition empty_data :: callback_data where
  "empty_data = \<lparr> cd_deal_id = None, cd_analysis = None, cd_analyses = None,
                   cd_error = None, cd_post_url = None \<rparr>"

text \<open>
  The payload stored as \<open>orchestrator_result\<close>: the request body, with a synthesised
  \<open>data.analysis\<close> and \<open>data.analyses\<close> when the result is an error, a failure or a zero
  score and the payload carries no analyses (lines 468-520).
\<close>

definition enrich :: "request_body \<Rightarrow> string \<Rightarrow> num \<Rightarrow> request_body" where
  "enrich rb vstatus score =
     (if (vstatus = ''error'' \<or> vstatus = ''failed'' \<or> score = 0) \<and>
         (case data_analyses rb of None \<Rightarrow> True | Some l \<Rightarrow> length l = 0) then
        rb\<lparr>rb_data := Some
             ((case rb_data rb of None \<Rightarrow> empty_data | Some d \<Rightarrow> d)
                \<lparr>cd_analyses := Some [''verification_result''],
                 cd_analysis := Some
                   \<lparr> an_overall_score = Some score,
                     an_proof_verification = Some
                       \<lparr> overall_confidence = Some score,
                         requirements_met =
                           Some (if score \<ge> 80 then [''Content verified successfully''] else []),
                         requirements_failed =
                           Some (if score < 80
                                 then [if score = 0 then ''Technical verification error''
                                       else ''Some requirements not fully met'']
                                 else []) \<rparr> \<rparr>\<rparr>)\<rparr>
      else rb)"

text \<open>
  The schedule the callback closes: among the deal's running or pending schedules, the
  one scheduled first (\<open>order('scheduled_at').limit(1)\<close>), as a position in the table.
\<close>

fun earliest :: "verification_schedule list \<Rightarrow> nat list \<Rightarrow> nat option" where
  "earliest ss [] = None"
| "earliest ss (i # js) =
     (case earliest ss js of
        None \<Rightarrow> Some i
      | Some j \<Rightarrow> if scheduled_at (ss ! i) \<le> scheduled_at (ss ! j) then Some i else Some j)"

definition open_schedules :: "world \<Rightarrow> string \<Rightarrow> nat list" where
  "open_schedules w i =
     filter (\<lambda>k. vs_deal_id (verification_schedules w ! k) = i \<and>
                  (vs_status (verification_schedules w ! k) = SRunning \<or>
                   vs_status (verification_schedules w ! k) = SPending))
       [0 ..< length (verification_schedules w)]"

definition complete_schedule :: "int \<Rightarrow> string \<Rightarrow> request_body \<Rightarrow> num \<Rightarrow> world \<Rightarrow> world" where
  "complete_schedule now i rb score w =
     (case earliest (verification_schedules w) (open_schedules w i) of
        None \<Rightarrow> w
      | Some k \<Rightarrow>
          w\<lparr>verification_schedules :=
              (verification_schedules w)
                [k := (verification_schedules w ! k)
                        \<lparr>vs_status := SCompleted, vs_completed_at := Some now,
                         vs_orchestrator_request_id := rb_requestId rb,
                         vs_confidence_score := Some score\<rparr>]\<rparr>)"

text \<open>The review row the handler inserts itself (lines 620-660).\<close>

definition insert_callback_review :: "int \<Rightarrow> string \<Rightarrow> request_body \<Rightarrow> num \<Rightarrow> world \<Rightarrow> world" where
  "insert_callback_review now i rb score w =
     (let confidence = confidence_of rb score
      in w\<lparr>reviews := reviews w @
             [\<lparr> rv_deal_id = i, rv_run_id = None, rv_reason_code = None,
                rv_priority = (if confidence < 50 then ''high'' else ''medium''),
                rv_status = ''Open'', rv_opened_at = Some now \<rparr>]\<rparr>)"

text \<open>\<open>HITLService.createReview\<close> (hitl.ts): the review row it inserts.\<close>

definition createReview :: "string \<Rightarrow> string \<Rightarrow> string \<Rightarrow> string \<Rightarrow> world \<Rightarrow> world" where
  "createReview runId i reason severity w =
     w\<lparr>reviews := reviews w @
         [\<lparr> rv_deal_id = i, rv_run_id = Some runId, rv_reason_code = Some reason,
            rv_priority = severity, rv_status = ''Open'', rv_opened_at = None \<rparr>]\<rparr>"

text \<open>
  \<open>processAutomaticRefund\<close>: a Solana-funded deal is refunded at once, and a refund that
  throws is noted in the deal's failure reason; a Stripe-funded deal is left to the cron.
\<close>

definition processAutomaticRefund :: "string \<Rightarrow> string \<Rightarrow> world \<Rightarrow> world" where
  "processAutomaticRefund i reason w =
     (if created_payment_method w i = ''solana'' then
        (case processRefundInternal i ''verification_failed'' w of
           Inr w' \<Rightarrow> w'
         | Inl msg \<Rightarrow>
             update_deal i
               (\<lambda>d. d\<lparr>failure_reason :=
                        Some (reason @ '' (refund pending: '' @ msg @ '')'')\<rparr>) w)
      else w)"

text \<open>The handler from the deal fetch on (lines 414-753), for a deal that was found.\<close>

definition apply_result ::
  "env \<Rightarrow> int \<Rightarrow> string \<Rightarrow> request_body \<Rightarrow> string \<Rightarrow> num \<Rightarrow> world \<Rightarrow> callback_response \<times> world" where
  "apply_result ev now i rb vstatus score w =
     (let dec = decide rb vstatus score;
          w1 = update_deal i
                 (\<lambda>d. (if finalStatus dec = Failed
                        then d\<lparr>failure_reason := failureReason dec\<rparr> else d)
                       \<lparr>d_status := finalStatus dec,
                        orchestrator_result := Some (enrich rb vstatus score),
                        last_verification_at := Some now,
                        verification_score := Some score\<rparr>) w;
          w2 = complete_schedule now i rb score w1;
          w3 = (if shouldCreateHITLReview dec then insert_callback_review now i rb score w2 else w2);
          w4 = (if finalStatus dec = Failed
                then processAutomaticRefund i (case failureReason dec of None \<Rightarrow> ''null'' | Some r \<Rightarrow> r) w3
                else w3);
          w5 = (if finalStatus dec = Verifying \<and> HITL_ENABLED ev
                then createReview (''orchestrator-'' @ show_int now) i
                       (if vstatus = ''error'' then ''ORCHESTRATOR_ERROR'' else ''MANUAL_REVIEW_NEEDED'')
                       (if score < 60 then ''high'' else ''medium'') w4
                else w4)
      in (Success200 (finalStatus dec) score, w5))"

text \<open>
  The whole handler. \<open>Inl\<close> is an exception that leaves the handler: reading
  \<open>requestBody.data\<close> of \<open>null\<close> is a \<open>TypeError\<close>, and it happens before the \<open>try\<close> block.
\<close>

definition callback ::
  "env \<Rightarrow> int \<Rightarrow> callback_request \<Rightarrow> world \<Rightarrow> (string + callback_response) \<times> world" where
  "callback ev now req w =
     (if cb_authorization req \<noteq> Some expectedAuth then (Inr Unauthorized401, w)
      else case cb_body req of
        Unparseable \<Rightarrow> (Inr InvalidJsonBody400, w)
      | JsonNull \<Rightarrow> (Inl ''TypeError'', w)
      | JsonObject rb \<Rightarrow>
          (let p = parse_callback rb
           in case dealId p of
                None \<Rightarrow> (Inr MissingDealId400, w)
              | Some i \<Rightarrow>
                  if prefix ''test-deal-'' i then
                    (Inr (TestDeal200 i (overallScore p) (verificationStatus p)),
                     w\<lparr>test_results_kv := test_results_kv w @
                          [(i, verificationStatus p, overallScore p)]\<rparr>)
                  else
                    (case deal_by_id w i of
                       None \<Rightarrow> (Inr DealNotFound404, w)
                     | Some deal \<Rightarrow>
                         (let r = apply_result ev now i rb (verificationStatus p) (overallScore p) w
                          in (Inr (fst r), snd r)))))"

subsection \<open>The submit-post handler and its schedule ladder (deals.ts)\<close>

definition checkIntervalHours :: "num \<Rightarrow> num" where
  "checkIntervalHours durationHours =
     (if durationHours \<le> 1 / 10 then 278 / 10000
      else if durationHours \<le> 24 then 4
      else if durationHours \<le> 72 then 12
      else 24)"


text \<open>\<open>new Date(t.getTime() + checkIntervalHours * 60 * 60 * 1000)\<close>.\<close>

definition next_check :: "num \<Rightarrow> int \<Rightarrow> int" where
  "next_check ci t = time_clip (of_int t + ci * 60 * 60 * 1000)"

definition new_schedule :: "string \<Rightarrow> int \<Rightarrow> check_type \<Rightarrow> verification_schedule" where
  "new_schedule i t ty =
     \<lparr> vs_deal_id = i, scheduled_at = t, vs_check_type = ty, vs_status = SPending,
       vs_completed_at = None, vs_orchestrator_request_id = None,
       vs_confidence_score = None, vs_notes = None \<rparr>"

text \<open>The \<open>while (nextCheck < deadline)\<close> loop: the periodic rows, in the order pushed.\<close>

function periodic_schedules :: "string \<Rightarrow> num \<Rightarrow> int \<Rightarrow> int \<Rightarrow> verification_schedule list" where
  "periodic_schedules i durationHours nextCheck deadline =
     (if nextCheck < deadline
      then new_schedule i nextCheck Periodic #
           periodic_schedules i durationHours
             (next_check (checkIntervalHours durationHours) nextCheck) deadline
      else [])"
  by pat_completeness auto
termination
proof (relation "measure (\<lambda>(i, durationHours, nextCheck, deadline). nat (deadline - nextCheck))")
  show "wf (measure (\<lambda>(i, durationHours, nextCheck, deadline). nat (deadline - nextCheck)))"
    by simp
next
  fix i :: string and durationHours :: num and nextCheck deadline :: int
  assume lt: "nextCheck < deadline"
  have step: "nextCheck < next_check (checkIntervalHours durationHours) nextCheck"
    by (simp add: next_check_def checkIntervalHours_def time_clip_def)
  show "((i, durationHours, next_check (checkIntervalHours durationHours) nextCheck, deadline),
         (i, durationHours, nextCheck, deadline))
        \<in> measure (\<lambda>(i, durationHours, nextCheck, deadline). nat (deadline - nextCheck))"
    using lt step by simp
qed

declare periodic_schedules.simps [simp del]

text \<open>
  The schedule block (lines 1004-1079) on \<open>updateData\<close>, the row the status update
  returned: the initial row, then the periodic rows and the final row in one insert.
\<close>

definition create_schedules :: "int \<Rightarrow> string \<Rightarrow> deal_row \<Rightarrow> world \<Rightarrow> world" where
  "create_schedules now i updateData w =
     (let durationHours = row_durationHours updateData;
          deadline = deadline_iso (row_deal updateData);
          schedules =
            periodic_schedules i durationHours
              (next_check (checkIntervalHours durationHours) now) deadline @
            [new_schedule i deadline Final]
      in w\<lparr>verification_schedules :=
             verification_schedules w @ [new_schedule i now Initial] @ schedules\<rparr>)"

datatype submit_response =
  PostUrlRequired400 | InvalidUrlFormat400 | SubmitDealNotFound404
  | OnlyCreator403 | NotFunded400 | Submitted

text \<open>
  The handler up to the schedule block; dispatching the first verification and the
  notifications follow it. \<open>url_ok\<close> says whether \<open>new URL(post_url)\<close> accepts the string.
  The status update ends in \<open>.select('*').single()\<close>, so \<open>updateData\<close> has the columns of
  the deal and no embedded relation.
\<close>

definition submit_post ::
  "int \<Rightarrow> string \<Rightarrow> string \<Rightarrow> string \<Rightarrow> bool \<Rightarrow> world \<Rightarrow> submit_response \<times> world" where
  "submit_post now user i url url_ok w =
     (if url = [] then (PostUrlRequired400, w)
      else if \<not> url_ok then (InvalidUrlFormat400, w)
      else case deal_by_id w i of
        None \<Rightarrow> (SubmitDealNotFound404, w)
      | Some deal \<Rightarrow>
          if creator_id deal \<noteq> Some user then (OnlyCreator403, w)
          else if d_status deal \<noteq> PendingVerification then (NotFunded400, w)
          else
            (let updated = deal\<lparr>d_status := Verifying, posted_at := Some now, post_url := Some url\<rparr>;
                 w1 = update_deal i (\<lambda>d. updated) w;
                 updateData = select_star updated
             in (Submitted, create_schedules now i updateData w1)))"

subsection \<open>The cancel handler (deals.ts, POST /:id/cancel)\<close>



subsection \<open>Funding the escrow (solana.ts, POST /fund-escrow)\<close>

definition PLATFORM_FEE_PERCENT :: num where
  "PLATFORM_FEE_PERCENT = 2 / 100"

text \<open>What \<open>connection.getTransaction\<close> finds for the signature.\<close>

datatype tx_lookup = TxNotFound | TxFailedOnChain | TxConfirmed

datatype fund_response =
  FundFieldsRequired400 | FundDealNotFound404 | FundOnlyAdvertiser403
  | FundNotInFundingState400 | FundTxNotFound400 | FundTxFailed400 | Funded

definition fund_escrow ::
  "int \<Rightarrow> string \<Rightarrow> string \<Rightarrow> string \<Rightarrow> tx_lookup \<Rightarrow> world \<Rightarrow> fund_response \<times> world" where
  "fund_escrow now user deal_id tx_signature tx w =
     (if deal_id = [] \<or> tx_signature = [] then (FundFieldsRequired400, w)
      else case deal_by_id w deal_id of
        None \<Rightarrow> (FundDealNotFound404, w)
      | Some deal \<Rightarrow>
          if advertiser_id deal \<noteq> user then (FundOnlyAdvertiser403, w)
          else if d_status deal \<noteq> PendingFunding \<and> d_status deal \<noteq> Failed then
            (FundNotInFundingState400, w)
          else if tx = TxNotFound then (FundTxNotFound400, w)
          else if tx = TxFailedOnChain then (FundTxFailed400, w)
          else
            (let creatorAmount = amount_usdc deal;
                 platformFee = creatorAmount * PLATFORM_FEE_PERCENT;
                 totalExpected = creatorAmount + platformFee;
                 w1 = update_deal deal_id
                        (\<lambda>d. d\<lparr>d_status := PendingVerification, updated_at := Some now\<rparr>) w
             in (Funded,
                 w1\<lparr>escrow_events := escrow_events w1 @
                      [\<lparr> e_deal_id = deal_id, e_event_type = ''Created'',
                         e_amount_usdc = totalExpected, e_payment_method = Some ''solana'',
                         e_tx_ref = None, e_solana_signature = Some tx_signature \<rparr>]\<rparr>)))"

subsection \<open>Running an executor twice\<close>

definition twice :: "(world \<Rightarrow> string + world) \<Rightarrow> world \<Rightarrow> string + world" where
  "twice f w = (case f w of Inl e \<Rightarrow> Inl e | Inr w' \<Rightarrow> f w')"

definition non_failed_payouts :: "world \<Rightarrow> string \<Rightarrow> payout list" where
  "non_failed_payouts w i = filter (\<lambda>p. p_deal_id p = i \<and> p_status p \<noteq> ''failed'') (payouts w)"

subsection \<open>What the store holds for one deal\<close>


definition payouts_of :: "world \<Rightarrow> string \<Rightarrow> payout list" where
  "payouts_of w i = filter (\<lambda>p. p_deal_id p = i) (payouts w)"


subsection \<open>A concrete deal\<close>

text \<open>
  A deal of half a SOL between \<open>adv-1\<close> and \<open>cre-1\<close>, funded through \<open>fund-escrow\<close>, posted
  at time 0 with a 24 hour proof spec, verified once with score 90; both parties have a
  wallet connected and the platform wallet holds 10 SOL.
\<close>

definition ex_deal :: deal where
  "ex_deal =
     \<lparr> d_id = ''deal-1'', advertiser_id = ''adv-1'', creator_id = Some ''cre-1'',
       d_status = Verifying, failure_reason = None, verification_score = Some 90,
       last_verification_at = Some 3600000, posted_at = Some 0, orchestrator_result = None,
       post_url = Some ''https://x.com/p/1'', amount_usdc = 1 / 2, deadline_iso = 172800000,
       cancelled_at = None, updated_at = None \<rparr>"

definition ex_world :: world where
  "ex_world =
     \<lparr> deals = [ex_deal],
       proof_specs = [\<lparr> ps_deal_id = ''deal-1'', duration_hours = Some 24 \<rparr>],
       identities =
         [\<lparr> i_id = ''adv-1'', solana_wallet_address = Some ''AdvWallet'',
            stripe_connect_account_id = None \<rparr>,
          \<lparr> i_id = ''cre-1'', solana_wallet_address = Some ''CreWallet'',
            stripe_connect_account_id = None \<rparr>],
       escrow_events =
         [\<lparr> e_deal_id = ''deal-1'', e_event_type = ''Created'', e_amount_usdc = 51 / 100,
            e_payment_method = Some ''solana'', e_tx_ref = None,
            e_solana_signature = Some ''sig-1'' \<rparr>],
       payouts = [], refunds = [], reviews = [],
       verification_schedules =
         [new_schedule ''deal-1'' 0 Initial, new_schedule ''deal-1'' 14400000 Periodic,
          new_schedule ''deal-1'' 172800000 Final],
       chain = \<lparr> platform_balance = 10000000000, transfers = [] \<rparr>,
       stripe_refunds = [], test_results_kv = [] \<rparr>"

definition ex_env :: env where
  "ex_env = \<lparr> HITL_ENABLED = True, ORCHESTRATOR_ENABLED = True \<rparr>"

definition empty_body :: request_body where
  "empty_body =
     \<lparr> rb_status = None, rb_data = None, rb_deal_id = None, rb_verification_status = None,
       rb_overall_score = None, rb_error = None, rb_error_message = None, rb_requestId = None \<rparr>"

definition authed :: "request_body \<Rightarrow> callback_request" where
  "authed rb = \<lparr> cb_authorization = Some expectedAuth, cb_body = JsonObject rb \<rparr>"

text \<open>A payload of the current shape for \<open>deal-1\<close>: status, score, confidence, failed requirements.\<close>

definition ex_result :: "string \<Rightarrow> num \<Rightarrow> num option \<Rightarrow> string list \<Rightarrow> request_body" where
  "ex_result st score conf failed =
     empty_body
       \<lparr>rb_status := Some st,
        rb_data := Some
          \<lparr> cd_deal_id = Some ''deal-1'',
            cd_analysis = Some
              \<lparr> an_overall_score = Some score,
                an_proof_verification = Some
                  \<lparr> overall_confidence = conf, requirements_met = Some [],
                    requirements_failed = Some failed \<rparr> \<rparr>,
            cd_analyses = Some [''video''], cd_error = None, cd_post_url = None \<rparr>\<rparr>"

text \<open>A payload of the legacy shape for \<open>deal-1\<close>.\<close>

definition ex_legacy :: "string \<Rightarrow> num \<Rightarrow> request_body" where
  "ex_legacy st score =
     empty_body\<lparr>rb_deal_id := Some ''deal-1'', rb_verification_status := Some st,
                rb_overall_score := Some score\<rparr>"

text \<open>
  The callback the orchestrator sends when a verification job throws (api-server.js):
  \<open>{ status: 'error', data: { deal_id, error, timestamp, apiVersion } }\<close>.
\<close>

definition ex_error_callback :: request_body where
  "ex_error_callback =
     empty_body\<lparr>rb_status := Some ''error'',
                rb_data := Some (empty_data\<lparr>cd_deal_id := Some ''deal-1'',
                                            cd_error := Some ''Job failed''\<rparr>)\<rparr>"


section \<open>Proofs\<close>

subsection \<open>Looking a deal up after an update\<close>

lemma single_Some_iff: "single xs = Some x \<longleftrightarrow> xs = [x]"
  by (auto simp: single_def split: list.splits)

lemma deal_by_id_SomeD: "deal_by_id w i = Some d \<Longrightarrow> d_id d = i \<and> d \<in> set (deals w)"
proof -
  assume "deal_by_id w i = Some d"
  then have "filter (\<lambda>d. d_id d = i) (deals w) = [d]"
    by (simp add: deal_by_id_def single_Some_iff)
  then have "d \<in> set (filter (\<lambda>d. d_id d = i) (deals w))" by simp
  then show ?thesis by simp
qed

lemma deal_by_id_update_deal:
  assumes "deal_by_id w i = Some d" and "\<And>x. d_id (f x) = d_id x"
  shows "deal_by_id (update_deal i f w) i = Some (f d)"
proof -
  let ?g = "\<lambda>x. if d_id x = i then f x else x"
  from assms(1) have fl: "filter (\<lambda>d. d_id d = i) (deals w) = [d]"
    by (simp add: deal_by_id_def single_Some_iff)
  then have di: "d_id d = i" using deal_by_id_SomeD[OF assms(1)] by simp
  have "filter (\<lambda>d. d_id d = i) (map ?g (deals w)) = map ?g (filter (\<lambda>d. d_id d = i) (deals w))"
    by (induction "deals w" arbitrary: w) (auto simp: filter_map o_def assms(2))
  then show ?thesis
    using fl di by (simp add: deal_by_id_def update_deal_def single_def)
qed



lemma identity_of_cong: "identities w' = identities w \<Longrightarrow> identity_of w' u = identity_of w u"
  by (cases u) (simp_all add: identity_of_def)

lemma wallet_of_cong: "identities w' = identities w \<Longrightarrow> wallet_of w' u = wallet_of w u"
  using identity_of_cong[of w' w u] by (simp add: wallet_of_def)



lemma complete_schedule_frame:
  "deals (complete_schedule now i rb score w) = deals w"
  "reviews (complete_schedule now i rb score w) = reviews w"
  "refunds (complete_schedule now i rb score w) = refunds w"
  "payouts (complete_schedule now i rb score w) = payouts w"
  "chain (complete_schedule now i rb score w) = chain w"
  "escrow_events (complete_schedule now i rb score w) = escrow_events w"
  "identities (complete_schedule now i rb score w) = identities w"
  by (simp_all add: complete_schedule_def split: option.splits)

lemma insert_callback_review_frame:
  "deals (insert_callback_review now i rb score w) = deals w"
  "refunds (insert_callback_review now i rb score w) = refunds w"
  "payouts (insert_callback_review now i rb score w) = payouts w"
  "chain (insert_callback_review now i rb score w) = chain w"
  "escrow_events (insert_callback_review now i rb score w) = escrow_events w"
  "identities (insert_callback_review now i rb score w) = identities w"
  "verification_schedules (insert_callback_review now i rb score w) = verification_schedules w"
  by (simp_all add: insert_callback_review_def Let_def)

lemma createReview_frame:
  "deals (createReview r i a b w) = deals w"
  "refunds (createReview r i a b w) = refunds w"
  "payouts (createReview r i a b w) = payouts w"
  "chain (createReview r i a b w) = chain w"
  "verification_schedules (createReview r i a b w) = verification_schedules w"
  by (simp_all add: createReview_def)

lemma update_deal_frame:
  "reviews (update_deal i f w) = reviews w"
  "refunds (update_deal i f w) = refunds w"
  "payouts (update_deal i f w) = payouts w"
  "chain (update_deal i f w) = chain w"
  "escrow_events (update_deal i f w) = escrow_events w"
  "identities (update_deal i f w) = identities w"
  "verification_schedules (update_deal i f w) = verification_schedules w"
  "proof_specs (update_deal i f w) = proof_specs w"
  by (simp_all add: update_deal_def)

lemma processRefundInternal_Inr:
  assumes "processRefundInternal i r w = Inr w'"
  shows "deals w' = deals w" "payouts w' = payouts w" "reviews w' = reviews w"
    "verification_schedules w' = verification_schedules w"
    "\<exists>row. refunds w' = refunds w @ [row] \<and> r_deal_id row = i \<and> r_status row = ''completed''"
  using assms
  by (auto simp: processRefundInternal_def Let_def split: option.splits if_splits)

lemma processAutomaticRefund_deal:
  assumes "deal_by_id w i = Some d"
  shows "\<exists>sfx. deal_by_id (processAutomaticRefund i reason w) i =
           Some (d\<lparr>failure_reason := (if sfx = [] then failure_reason d else Some (reason @ sfx))\<rparr>)"
proof (cases "created_payment_method w i = ''solana''")
  case False
  then have "deal_by_id (processAutomaticRefund i reason w) i = Some (d\<lparr>failure_reason := failure_reason d\<rparr>)"
    using assms by (simp add: processAutomaticRefund_def)
  then show ?thesis by (intro exI[of _ "[]"]) simp
next
  case True
  show ?thesis
  proof (cases "processRefundInternal i ''verification_failed'' w")
    case (Inr w')
    then have "deal_by_id (processAutomaticRefund i reason w) i = Some (d\<lparr>failure_reason := failure_reason d\<rparr>)"
      using assms True processRefundInternal_Inr(1)[OF Inr]
      by (simp add: processAutomaticRefund_def deal_by_id_def)
    then show ?thesis by (intro exI[of _ "[]"]) simp
  next
    case (Inl msg)
    have "deal_by_id (processAutomaticRefund i reason w) i =
          Some (d\<lparr>failure_reason := Some (reason @ '' (refund pending: '' @ msg @ '')'')\<rparr>)"
      using True Inl deal_by_id_update_deal[OF assms, of "\<lambda>d. d\<lparr>failure_reason := Some (reason @ '' (refund pending: '' @ msg @ '')'')\<rparr>"]
      by (simp add: processAutomaticRefund_def)
    then show ?thesis by (intro exI[of _ "'' (refund pending: '' @ msg @ '')''"]) simp
  qed
qed

subsection \<open>The callback handler: what it does to the deal and to the other tables\<close>

lemma decide_Failed_reason:
  "finalStatus (decide rb vs score) = Failed \<Longrightarrow> \<exists>r. failureReason (decide rb vs score) = Some r"
  by (auto simp: decide_def Let_def split: if_splits)

lemma decide_status: "finalStatus (decide rb vs score) = Failed \<or> finalStatus (decide rb vs score) = Verifying"
  by (auto simp: decide_def Let_def)

lemma apply_result_response:
  "fst (apply_result ev now i rb vs score w) = Success200 (finalStatus (decide rb vs score)) score"
  by (simp add: apply_result_def Let_def)

lemma apply_result_deal:
  assumes found: "deal_by_id w i = Some d"
  shows "\<exists>fr. deal_by_id (snd (apply_result ev now i rb vs score w)) i =
           Some (d\<lparr>failure_reason := fr, d_status := finalStatus (decide rb vs score),
                   orchestrator_result := Some (enrich rb vs score),
                   last_verification_at := Some now, verification_score := Some score\<rparr>) \<and>
         (if finalStatus (decide rb vs score) = Failed
          then \<exists>sfx. fr = Some (the (failureReason (decide rb vs score)) @ sfx)
          else fr = failure_reason d)"
proof -
  let ?dec = "decide rb vs score"
  let ?f = "\<lambda>d. (if finalStatus ?dec = Failed then d\<lparr>failure_reason := failureReason ?dec\<rparr> else d)
                 \<lparr>d_status := finalStatus ?dec, orchestrator_result := Some (enrich rb vs score),
                  last_verification_at := Some now, verification_score := Some score\<rparr>"
  let ?w1 = "update_deal i ?f w"
  let ?w2 = "complete_schedule now i rb score ?w1"
  let ?w3 = "if shouldCreateHITLReview ?dec then insert_callback_review now i rb score ?w2 else ?w2"
  have d1: "deal_by_id ?w1 i = Some (?f d)"
    by (rule deal_by_id_update_deal[OF found]) simp
  have d3: "deal_by_id ?w3 i = Some (?f d)"
    using d1 by (simp add: deal_by_id_def complete_schedule_frame insert_callback_review_frame)
  show ?thesis
  proof (cases "finalStatus ?dec = Failed")
    case True
    obtain r where r: "failureReason ?dec = Some r" using decide_Failed_reason[OF True] by blast
    obtain sfx where s: "deal_by_id (processAutomaticRefund i r ?w3) i =
        Some ((?f d)\<lparr>failure_reason := (if sfx = [] then failure_reason (?f d) else Some (r @ sfx))\<rparr>)"
      using processAutomaticRefund_deal[OF d3, of r] by blast
    have w5: "snd (apply_result ev now i rb vs score w) = processAutomaticRefund i r ?w3"
      using True r by (simp add: apply_result_def Let_def)
    show ?thesis
      using True r s w5
      by (intro exI[of _ "if sfx = [] then Some r else Some (r @ sfx)"]) (auto intro: exI[of _ "[]"])
  next
    case False
    have "deals (snd (apply_result ev now i rb vs score w)) = deals ?w3"
      using False by (simp add: apply_result_def Let_def createReview_frame)
    then have "deal_by_id (snd (apply_result ev now i rb vs score w)) i = Some (?f d)"
      using d3 by (simp add: deal_by_id_def)
    then show ?thesis using False
      by (intro exI[of _ "failure_reason d"]) simp
  qed
qed

lemma callback_found:
  assumes "cb_authorization req = Some expectedAuth" and "cb_body req = JsonObject rb"
    and "dealId (parse_callback rb) = Some i" and "\<not> prefix ''test-deal-'' i"
    and "deal_by_id w i = Some d"
  shows "callback ev now req w =
           (Inr (fst (apply_result ev now i rb (verificationStatus (parse_callback rb))
                        (overallScore (parse_callback rb)) w)),
            snd (apply_result ev now i rb (verificationStatus (parse_callback rb))
                   (overallScore (parse_callback rb)) w))"
  using assms by (simp add: callback_def Let_def)


lemma apply_result_not_failed:
  assumes "finalStatus (decide rb vs score) \<noteq> Failed"
  shows "refunds (snd (apply_result ev now i rb vs score w)) = refunds w"
    and "payouts (snd (apply_result ev now i rb vs score w)) = payouts w"
    and "chain (snd (apply_result ev now i rb vs score w)) = chain w"
    and "reviews (snd (apply_result ev now i rb vs score w)) =
           reviews w @
           (if shouldCreateHITLReview (decide rb vs score)
            then [\<lparr> rv_deal_id = i, rv_run_id = None, rv_reason_code = None,
                     rv_priority = (if confidence_of rb score < 50 then ''high'' else ''medium''),
                     rv_status = ''Open'', rv_opened_at = Some now \<rparr>] else []) @
           (if HITL_ENABLED ev
            then [\<lparr> rv_deal_id = i, rv_run_id = Some (''orchestrator-'' @ show_int now),
                     rv_reason_code = Some (if vs = ''error'' then ''ORCHESTRATOR_ERROR''
                                            else ''MANUAL_REVIEW_NEEDED''),
                     rv_priority = (if score < 60 then ''high'' else ''medium''),
                     rv_status = ''Open'', rv_opened_at = None \<rparr>] else [])"
proof -
  have v: "finalStatus (decide rb vs score) = Verifying"
    using assms decide_status[of rb vs score] by blast
  show "refunds (snd (apply_result ev now i rb vs score w)) = refunds w"
    using v by (simp add: apply_result_def Let_def createReview_frame insert_callback_review_frame
        complete_schedule_frame update_deal_frame)
  show "payouts (snd (apply_result ev now i rb vs score w)) = payouts w"
    using v by (simp add: apply_result_def Let_def createReview_frame insert_callback_review_frame
        complete_schedule_frame update_deal_frame)
  show "chain (snd (apply_result ev now i rb vs score w)) = chain w"
    using v by (simp add: apply_result_def Let_def createReview_frame insert_callback_review_frame
        complete_schedule_frame update_deal_frame)
  show "reviews (snd (apply_result ev now i rb vs score w)) =
           reviews w @
           (if shouldCreateHITLReview (decide rb vs score)
            then [\<lparr> rv_deal_id = i, rv_run_id = None, rv_reason_code = None,
                     rv_priority = (if confidence_of rb score < 50 then ''high'' else ''medium''),
                     rv_status = ''Open'', rv_opened_at = Some now \<rparr>] else []) @
           (if HITL_ENABLED ev
            then [\<lparr> rv_deal_id = i, rv_run_id = Some (''orchestrator-'' @ show_int now),
                     rv_reason_code = Some (if vs = ''error'' then ''ORCHESTRATOR_ERROR''
                                            else ''MANUAL_REVIEW_NEEDED''),
                     rv_priority = (if score < 60 then ''high'' else ''medium''),
                     rv_status = ''Open'', rv_opened_at = None \<rparr>] else [])"
    using v by (simp add: apply_result_def Let_def createReview_def insert_callback_review_def
        complete_schedule_frame update_deal_frame)
qed

text \<open>
  Claim C5. Requirement failure dominates the score: an authenticated callback with outcome
  \<open>completed\<close> whose \<open>requirements_failed\<close> list is not empty, for a deal the store holds,
  answers with status \<open>Failed\<close> and leaves the deal \<open>Failed\<close>, whatever the overall score
  is; the failure reason is \<open>Verification requirements not met: \<close> followed by the failed
  requirements joined with \<open>, \<close> (and by a note when the automatic refund could not be
  made). The stay-in-\<open>Verifying\<close> branches are not taken.
\<close>

theorem requirement_failure_dominates_score:
  assumes "cb_authorization req = Some expectedAuth" and "cb_body req = JsonObject rb"
    and "dealId (parse_callback rb) = Some i"
    and "verificationStatus (parse_callback rb) = ''completed''"
    and "\<not> prefix ''test-deal-'' i" and "deal_by_id w i = Some d"
    and "data_requirements_failed rb = Some failed" and "failed \<noteq> []"
  shows "fst (callback ev now req w) = Inr (Success200 Failed (overallScore (parse_callback rb))) \<and>
         (\<exists>d' sfx. deal_by_id (snd (callback ev now req w)) i = Some d' \<and>
            d_status d' = Failed \<and>
            failure_reason d' =
              Some (''Verification requirements not met: '' @ js_join '', '' failed @ sfx))"
proof -
  let ?score = "overallScore (parse_callback rb)"
  have dec: "decide rb ''completed'' ?score =
      \<lparr> finalStatus = Failed,
        failureReason = Some (''Verification requirements not met: '' @ js_join '', '' failed),
        shouldCreateHITLReview = False \<rparr>"
    using assms(7,8) by (simp add: decide_def Let_def)
  have cb: "callback ev now req w =
      (Inr (fst (apply_result ev now i rb ''completed'' ?score w)),
       snd (apply_result ev now i rb ''completed'' ?score w))"
    using callback_found[OF assms(1,2,3,5,6), of ev now] assms(4) by simp
  obtain fr where fr: "deal_by_id (snd (apply_result ev now i rb ''completed'' ?score w)) i =
      Some (d\<lparr>failure_reason := fr, d_status := Failed,
              orchestrator_result := Some (enrich rb ''completed'' ?score),
              last_verification_at := Some now, verification_score := Some ?score\<rparr>)"
    and sfx: "\<exists>sfx. fr = Some (''Verification requirements not met: '' @ js_join '', '' failed @ sfx)"
    using apply_result_deal[OF assms(6), of ev now rb "''completed''" ?score] dec by auto
  show ?thesis
    using cb fr sfx dec by (auto simp: apply_result_response)
qed

theorem requirement_failure_dominates_score_witness:
  "cb_authorization (authed (ex_result ''completed'' 95 (Some 95) [''text_proof''])) = Some expectedAuth \<and>
   dealId (parse_callback (ex_result ''completed'' 95 (Some 95) [''text_proof''])) = Some ''deal-1'' \<and>
   verificationStatus (parse_callback (ex_result ''completed'' 95 (Some 95) [''text_proof''])) = ''completed'' \<and>
   overallScore (parse_callback (ex_result ''completed'' 95 (Some 95) [''text_proof''])) = 95 \<and>
   deal_by_id ex_world ''deal-1'' = Some ex_deal \<and>
   fst (callback ex_env 7200000 (authed (ex_result ''completed'' 95 (Some 95) [''text_proof''])) ex_world)
     = Inr (Success200 Failed 95) \<and>
   (\<exists>d' sfx. deal_by_id (snd (callback ex_env 7200000
                 (authed (ex_result ''completed'' 95 (Some 95) [''text_proof''])) ex_world)) ''deal-1'' = Some d' \<and>
      d_status d' = Failed \<and>
      failure_reason d' = Some (''Verification requirements not met: '' @ js_join '', '' [''text_proof''] @ sfx))"
proof -
  let ?rb = "ex_result ''completed'' 95 (Some 95) [''text_proof'']"
  have h1: "cb_authorization (authed ?rb) = Some expectedAuth" by (simp add: authed_def)
  have h2: "cb_body (authed ?rb) = JsonObject ?rb" by (simp add: authed_def)
  have h3: "dealId (parse_callback ?rb) = Some ''deal-1''" by code_simp
  have h4: "verificationStatus (parse_callback ?rb) = ''completed''" by code_simp
  have h4': "overallScore (parse_callback ?rb) = 95" by code_simp
  have h5: "\<not> prefix ''test-deal-'' ''deal-1''" by code_simp
  have h6: "deal_by_id ex_world ''deal-1'' = Some ex_deal" by code_simp
  have h7: "data_requirements_failed ?rb = Some [''text_proof'']" by code_simp
  have h8: "[''text_proof''] \<noteq> ([] :: string list)" by simp
  from requirement_failure_dominates_score[OF h1 h2 h3 h4 h5 h6 h7 h8, of ex_env 7200000]
  show ?thesis using h1 h3 h4 h4' h6 by simp
qed

subsection \<open>The score and confidence thresholds\<close>

lemma decide_completed_no_failed:
  assumes "data_requirements_failed rb = None \<or> data_requirements_failed rb = Some []"
  shows "decide rb ''completed'' score =
     (if score \<ge> 80 then
        \<lparr> finalStatus = Verifying, failureReason = None, shouldCreateHITLReview = False \<rparr>
      else if score \<ge> 60 \<or> confidence_of rb score < 70 then
        \<lparr> finalStatus = Verifying, failureReason = None, shouldCreateHITLReview = True \<rparr>
      else
        \<lparr> finalStatus = Failed,
          failureReason = Some (''Low verification confidence: '' @ js_num_str score @ ''/100''),
          shouldCreateHITLReview = False \<rparr>)"
  using assms by (auto simp: decide_def Let_def)

lemma confidence_of_None: "data_overall_confidence rb = None \<Longrightarrow> confidence_of rb score = score"
  by (simp add: confidence_of_def num_or_def)

lemma confidence_of_ge70:
  assumes "70 \<le> confidence_of rb score" and "score < 60"
  shows "\<exists>c. data_overall_confidence rb = Some c \<and> 70 \<le> c"
  using assms by (auto simp: confidence_of_def num_or_def split: option.splits if_splits)

text \<open>
  Claim C10. For a callback with outcome \<open>completed\<close> and no failed requirement, for a deal
  the store holds: when the payload has no \<open>overall_confidence\<close>, the handler takes the
  overall score as the confidence; so with a score below 60 and no confidence given, the
  deal is set to \<open>Verifying\<close>, no refund is made, and the handler inserts its review row
  (and the HITL service's row when HITL is enabled). The deal ends \<open>Failed\<close> on this path
  only when the score is below 60 and the payload itself carries an \<open>overall_confidence\<close>
  of at least 70.
\<close>

theorem missing_confidence_defaults_to_score:
  assumes "cb_authorization req = Some expectedAuth" and "cb_body req = JsonObject rb"
    and "dealId (parse_callback rb) = Some i"
    and "verificationStatus (parse_callback rb) = ''completed''"
    and "overallScore (parse_callback rb) = score"
    and "\<not> prefix ''test-deal-'' i" and "deal_by_id w i = Some d"
    and "data_requirements_failed rb = None \<or> data_requirements_failed rb = Some []"
  shows "(data_overall_confidence rb = None \<longrightarrow> confidence_of rb score = score) \<and>
         (data_overall_confidence rb = None \<and> score < 60 \<longrightarrow>
            fst (callback ev now req w) = Inr (Success200 Verifying score) \<and>
            (\<exists>d'. deal_by_id (snd (callback ev now req w)) i = Some d' \<and> d_status d' = Verifying) \<and>
            refunds (snd (callback ev now req w)) = refunds w \<and>
            reviews (snd (callback ev now req w)) =
              reviews w @
              [\<lparr> rv_deal_id = i, rv_run_id = None, rv_reason_code = None,
                 rv_priority = (if score < 50 then ''high'' else ''medium''),
                 rv_status = ''Open'', rv_opened_at = Some now \<rparr>] @
              (if HITL_ENABLED ev
               then [\<lparr> rv_deal_id = i, rv_run_id = Some (''orchestrator-'' @ show_int now),
                        rv_reason_code = Some ''MANUAL_REVIEW_NEEDED'', rv_priority = ''high'',
                        rv_status = ''Open'', rv_opened_at = None \<rparr>] else [])) \<and>
         ((\<exists>d'. deal_by_id (snd (callback ev now req w)) i = Some d' \<and> d_status d' = Failed) \<longrightarrow>
            score < 60 \<and> (\<exists>c. data_overall_confidence rb = Some c \<and> 70 \<le> c))"
proof -
  let ?w' = "snd (apply_result ev now i rb ''completed'' score w)"
  have cb: "callback ev now req w = (Inr (fst (apply_result ev now i rb ''completed'' score w)), ?w')"
    using callback_found[OF assms(1,2,3,6,7), of ev now] assms(4,5) by simp
  note dec = decide_completed_no_failed[OF assms(8), of score]
  obtain fr where fr: "deal_by_id ?w' i =
      Some (d\<lparr>failure_reason := fr, d_status := finalStatus (decide rb ''completed'' score),
              orchestrator_result := Some (enrich rb ''completed'' score),
              last_verification_at := Some now, verification_score := Some score\<rparr>)"
    using apply_result_deal[OF assms(7), of ev now rb "''completed''" score] by blast
  have c1: "data_overall_confidence rb = None \<longrightarrow> confidence_of rb score = score"
    by (simp add: confidence_of_None)
  have c2: "fst (callback ev now req w) = Inr (Success200 Verifying score) \<and>
            (\<exists>d'. deal_by_id (snd (callback ev now req w)) i = Some d' \<and> d_status d' = Verifying) \<and>
            refunds (snd (callback ev now req w)) = refunds w \<and>
            reviews (snd (callback ev now req w)) =
              reviews w @
              [\<lparr> rv_deal_id = i, rv_run_id = None, rv_reason_code = None,
                 rv_priority = (if score < 50 then ''high'' else ''medium''),
                 rv_status = ''Open'', rv_opened_at = Some now \<rparr>] @
              (if HITL_ENABLED ev
               then [\<lparr> rv_deal_id = i, rv_run_id = Some (''orchestrator-'' @ show_int now),
                        rv_reason_code = Some ''MANUAL_REVIEW_NEEDED'', rv_priority = ''high'',
                        rv_status = ''Open'', rv_opened_at = None \<rparr>] else [])"
    if none: "data_overall_confidence rb = None" and low: "score < 60"
  proof -
    have conf: "confidence_of rb score = score" using none by (simp add: confidence_of_None)
    have d: "decide rb ''completed'' score =
        \<lparr> finalStatus = Verifying, failureReason = None, shouldCreateHITLReview = True \<rparr>"
      using dec conf low by simp
    then have nf: "finalStatus (decide rb ''completed'' score) \<noteq> Failed" by simp
    show ?thesis
      using cb fr d conf low apply_result_not_failed[OF nf, of ev now i w]
      by (simp add: apply_result_response)
  qed
  have c3: "score < 60 \<and> (\<exists>c. data_overall_confidence rb = Some c \<and> 70 \<le> c)"
    if "\<exists>d'. deal_by_id (snd (callback ev now req w)) i = Some d' \<and> d_status d' = Failed"
  proof -
    from that cb fr have f: "finalStatus (decide rb ''completed'' score) = Failed" by auto
    then have "score < 60 \<and> 70 \<le> confidence_of rb score"
      using dec by (auto split: if_splits)
    then show ?thesis using confidence_of_ge70 by blast
  qed
  show ?thesis using c1 c2 c3 by blast
qed

text \<open>
  The hypotheses of C10 hold for a completed result with score 40, no confidence and no
  failed requirement on the concrete deal: it stays \<open>Verifying\<close> with two review rows.
\<close>

theorem missing_confidence_defaults_to_score_witness:
  "dealId (parse_callback (ex_result ''completed'' 40 None [])) = Some ''deal-1'' \<and>
   verificationStatus (parse_callback (ex_result ''completed'' 40 None [])) = ''completed'' \<and>
   overallScore (parse_callback (ex_result ''completed'' 40 None [])) = 40 \<and>
   data_requirements_failed (ex_result ''completed'' 40 None []) = Some [] \<and>
   data_overall_confidence (ex_result ''completed'' 40 None []) = None \<and>
   deal_by_id ex_world ''deal-1'' = Some ex_deal \<and>
   confidence_of (ex_result ''completed'' 40 None []) 40 = 40 \<and>
   fst (callback ex_env 7200000 (authed (ex_result ''completed'' 40 None [])) ex_world)
     = Inr (Success200 Verifying 40) \<and>
   (\<exists>d'. deal_by_id (snd (callback ex_env 7200000 (authed (ex_result ''completed'' 40 None []))
                              ex_world)) ''deal-1'' = Some d' \<and> d_status d' = Verifying) \<and>
   refunds (snd (callback ex_env 7200000 (authed (ex_result ''completed'' 40 None [])) ex_world)) = [] \<and>
   reviews (snd (callback ex_env 7200000 (authed (ex_result ''completed'' 40 None [])) ex_world)) =
     [\<lparr> rv_deal_id = ''deal-1'', rv_run_id = None, rv_reason_code = None, rv_priority = ''high'',
        rv_status = ''Open'', rv_opened_at = Some 7200000 \<rparr>,
      \<lparr> rv_deal_id = ''deal-1'', rv_run_id = Some (''orchestrator-'' @ show_int 7200000),
        rv_reason_code = Some ''MANUAL_REVIEW_NEEDED'', rv_priority = ''high'',
        rv_status = ''Open'', rv_opened_at = None \<rparr>]"
proof -
  let ?rb = "ex_result ''completed'' 40 None []"
  have h1: "cb_authorization (authed ?rb) = Some expectedAuth" by (simp add: authed_def)
  have h2: "cb_body (authed ?rb) = JsonObject ?rb" by (simp add: authed_def)
  have h3: "dealId (parse_callback ?rb) = Some ''deal-1''" by code_simp
  have h4: "verificationStatus (parse_callback ?rb) = ''completed''" by code_simp
  have h5: "overallScore (parse_callback ?rb) = 40" by code_simp
  have h6: "\<not> prefix ''test-deal-'' ''deal-1''" by code_simp
  have h7: "deal_by_id ex_world ''deal-1'' = Some ex_deal" by code_simp
  have h8: "data_requirements_failed ?rb = Some []" by code_simp
  have h8': "data_requirements_failed ?rb = None \<or> data_requirements_failed ?rb = Some []"
    using h8 by simp
  have h9: "data_overall_confidence ?rb = None" by code_simp
  have e: "HITL_ENABLED ex_env" "reviews ex_world = []" "refunds ex_world = []"
    by (simp_all add: ex_env_def ex_world_def)
  from missing_confidence_defaults_to_score[OF h1 h2 h3 h4 h5 h6 h7 h8', of ex_env 7200000]
  show ?thesis using h3 h4 h5 h7 h8 h9 e by simp
qed

subsection \<open>Error results, stale callbacks, malformed payloads\<close>

lemma decide_error:
  "decide rb ''error'' score =
     \<lparr> finalStatus = Verifying,
       failureReason = Some (''Orchestrator error: '' @ str_or (rb_error_message rb) ''Unknown error''),
       shouldCreateHITLReview = True \<rparr>"
  by (simp add: decide_def)

text \<open>
  What the handler's \<open>error\<close> branch does when it is reached: the deal is set to
  \<open>Verifying\<close>, the payload's overall score (0 when the payload has none) is recorded with
  \<open>orchestrator_result\<close>, there is no refund, payout or transfer, one open review row
  without a reason code is inserted and, when HITL is enabled, the HITL service inserts a
  second one with reason \<open>ORCHESTRATOR_ERROR\<close>. Only a payload of the legacy shape
  (\<open>deal_id\<close> and \<open>verification_status\<close> at the top level) is normalised to \<open>error\<close>.
\<close>

lemma error_branch_result:
  assumes "cb_authorization req = Some expectedAuth" and "cb_body req = JsonObject rb"
    and "dealId (parse_callback rb) = Some i"
    and "verificationStatus (parse_callback rb) = ''error''"
    and "overallScore (parse_callback rb) = score"
    and "\<not> prefix ''test-deal-'' i" and "deal_by_id w i = Some d"
  shows "fst (callback ev now req w) = Inr (Success200 Verifying score) \<and>
         deal_by_id (snd (callback ev now req w)) i =
           Some (d\<lparr>d_status := Verifying, orchestrator_result := Some (enrich rb ''error'' score),
                   last_verification_at := Some now, verification_score := Some score\<rparr>) \<and>
         refunds (snd (callback ev now req w)) = refunds w \<and>
         payouts (snd (callback ev now req w)) = payouts w \<and>
         chain (snd (callback ev now req w)) = chain w \<and>
         reviews (snd (callback ev now req w)) =
           reviews w @
           [\<lparr> rv_deal_id = i, rv_run_id = None, rv_reason_code = None,
              rv_priority = (if confidence_of rb score < 50 then ''high'' else ''medium''),
              rv_status = ''Open'', rv_opened_at = Some now \<rparr>] @
           (if HITL_ENABLED ev
            then [\<lparr> rv_deal_id = i, rv_run_id = Some (''orchestrator-'' @ show_int now),
                     rv_reason_code = Some ''ORCHESTRATOR_ERROR'',
                     rv_priority = (if score < 60 then ''high'' else ''medium''),
                     rv_status = ''Open'', rv_opened_at = None \<rparr>] else [])"
proof -
  let ?w' = "snd (apply_result ev now i rb ''error'' score w)"
  have cb: "callback ev now req w = (Inr (fst (apply_result ev now i rb ''error'' score w)), ?w')"
    using callback_found[OF assms(1,2,3,6,7), of ev now] assms(4,5) by simp
  have nf: "finalStatus (decide rb ''error'' score) \<noteq> Failed" by (simp add: decide_error)
  obtain fr where fr: "deal_by_id ?w' i =
      Some (d\<lparr>failure_reason := fr, d_status := finalStatus (decide rb ''error'' score),
              orchestrator_result := Some (enrich rb ''error'' score),
              last_verification_at := Some now, verification_score := Some score\<rparr>)"
    and frd: "fr = failure_reason d"
    using apply_result_deal[OF assms(7), of ev now rb "''error''" score] nf by auto
  show ?thesis
    using cb fr frd apply_result_not_failed[OF nf, of ev now i w]
    by (simp add: apply_result_response decide_error)
qed

text \<open>
  Claim C6 fails. The orchestrator reports an error as
  \<open>{ status: 'error', data: { deal_id, error } }\<close>. The normalisation turns every status
  of that shape other than \<open>completed\<close> into \<open>failed\<close>, so the \<open>error\<close> branch of the
  handler is not reached: for the concrete deal the callback answers success with status
  \<open>Failed\<close>, the deal is \<open>Failed\<close> with reason \<open>Verification failed - Score: 0/100\<close>, the
  advertiser is refunded half a SOL from the platform wallet, and no review is created.
  Where the \<open>error\<close> branch is reached (the legacy shape, here with score 0 and HITL
  enabled) the deal stays \<open>Verifying\<close> and nothing is refunded, but two review rows are
  created, and the one the handler inserts itself carries no reason code.
\<close>

theorem documented_error_callback_fails_deal:
  "ex_error_callback =
     empty_body\<lparr>rb_status := Some ''error'',
                rb_data := Some (empty_data\<lparr>cd_deal_id := Some ''deal-1'',
                                            cd_error := Some ''Job failed''\<rparr>)\<rparr> \<and>
   map d_status (deals ex_world) = [Verifying] \<and>
   verificationStatus (parse_callback ex_error_callback) = ''failed'' \<and>
   overallScore (parse_callback ex_error_callback) = 0 \<and>
   fst (callback ex_env 7200000 (authed ex_error_callback) ex_world) = Inr (Success200 Failed 0) \<and>
   map d_status (deals (snd (callback ex_env 7200000 (authed ex_error_callback) ex_world))) =
     [Failed] \<and>
   map failure_reason (deals (snd (callback ex_env 7200000 (authed ex_error_callback) ex_world))) =
     [Some ''Verification failed - Score: 0/100''] \<and>
   map verification_score (deals (snd (callback ex_env 7200000 (authed ex_error_callback) ex_world))) =
     [Some 0] \<and>
   refunds (snd (callback ex_env 7200000 (authed ex_error_callback) ex_world)) =
     [\<lparr> r_deal_id = ''deal-1'', r_amount_usdc = 1 / 2, r_reason = ''verification_failed'',
        r_status = ''completed'', r_stripe_refund_id = None \<rparr>] \<and>
   transfers (chain (snd (callback ex_env 7200000 (authed ex_error_callback) ex_world))) =
     [(''AdvWallet'', 500000000)] \<and>
   reviews (snd (callback ex_env 7200000 (authed ex_error_callback) ex_world)) = [] \<and>
   verificationStatus (parse_callback (ex_legacy ''error'' 0)) = ''error'' \<and>
   map d_status (deals (snd (callback ex_env 7200000 (authed (ex_legacy ''error'' 0)) ex_world))) =
     [Verifying] \<and>
   refunds (snd (callback ex_env 7200000 (authed (ex_legacy ''error'' 0)) ex_world)) = [] \<and>
   reviews (snd (callback ex_env 7200000 (authed (ex_legacy ''error'' 0)) ex_world)) =
     [\<lparr> rv_deal_id = ''deal-1'', rv_run_id = None, rv_reason_code = None, rv_priority = ''high'',
        rv_status = ''Open'', rv_opened_at = Some 7200000 \<rparr>,
      \<lparr> rv_deal_id = ''deal-1'', rv_run_id = Some ''orchestrator-7200000'',
        rv_reason_code = Some ''ORCHESTRATOR_ERROR'', rv_priority = ''high'',
        rv_status = ''Open'', rv_opened_at = None \<rparr>]"
  by code_simp

subsection \<open>The callback never reads the status of the deal\<close>











text \<open>
  Claim C8, as amended. For an authenticated payload that is a JSON object with no deal id
  (neither \<open>data.deal_id\<close> nor \<open>deal_id\<close>), the handler does not throw: normalisation
  yields outcome \<open>error\<close> and score 0 with no deal id, and the handler answers
  400 \<open>Missing deal_id in callback\<close> and changes nothing in the store.
\<close>

theorem missing_deal_id_rejected:
  assumes "cb_authorization req = Some expectedAuth" and "cb_body req = JsonObject rb"
    and "\<not> truthy_str (data_deal_id rb)" and "\<not> truthy_str (rb_deal_id rb)"
  shows "parse_callback rb = \<lparr> dealId = None, verificationStatus = ''error'', overallScore = 0 \<rparr> \<and>
         callback ev now req w = (Inr MissingDealId400, w)"
  using assms by (simp add: parse_callback_def callback_def Let_def)

text \<open>The hypotheses of C8 hold for the object with every member absent.\<close>

theorem missing_deal_id_rejected_witness:
  "cb_authorization (authed empty_body) = Some expectedAuth \<and>
   cb_body (authed empty_body) = JsonObject empty_body \<and>
   \<not> truthy_str (data_deal_id empty_body) \<and> \<not> truthy_str (rb_deal_id empty_body) \<and>
   parse_callback empty_body = \<lparr> dealId = None, verificationStatus = ''error'', overallScore = 0 \<rparr> \<and>
   callback ex_env 7200000 (authed empty_body) ex_world = (Inr MissingDealId400, ex_world)"
proof -
  have h1: "cb_authorization (authed empty_body) = Some expectedAuth" by (simp add: authed_def)
  have h2: "cb_body (authed empty_body) = JsonObject empty_body" by (simp add: authed_def)
  have h3: "\<not> truthy_str (data_deal_id empty_body)" by code_simp
  have h4: "\<not> truthy_str (rb_deal_id empty_body)" by code_simp
  from missing_deal_id_rejected[OF h1 h2 h3 h4, of ex_env 7200000 ex_world]
  show ?thesis using h1 h2 h3 h4 by simp
qed

text \<open>
  C8 as stated fails: the payload with every expected key missing is answered with the
  400 rejection, not with an acknowledgment, and nothing is recorded; and the JSON value
  \<open>null\<close> makes the handler throw.
\<close>

theorem malformed_callback_counterexample:
  "fst (callback ex_env 7200000 (authed empty_body) ex_world) = Inr MissingDealId400 \<and>
   snd (callback ex_env 7200000 (authed empty_body) ex_world) = ex_world \<and>
   fst (callback ex_env 7200000 \<lparr> cb_authorization = Some expectedAuth, cb_body = JsonNull \<rparr> ex_world)
     = Inl ''TypeError''"
  by code_simp

subsection \<open>Cancelling a deal\<close>




subsection \<open>Settlement is not idempotent for payouts\<close>

lemma processPayoutInternal_ok:
  assumes "deal_by_id w i = Some d" and "d_status d = Completed"
    and "wallet_of w (creator_id d) = Some wallet" and "wallet \<noteq> []"
    and "math_round (amount_usdc d * 1000000000) + RESERVE \<le> platform_balance (chain w)"
  shows "processPayoutInternal i w =
     Inr (w\<lparr>chain := send_transfer wallet (math_round (amount_usdc d * 1000000000)) (chain w),
             payouts := payouts w @
               [\<lparr> p_deal_id = i, p_method = ''Solana'', p_status = ''Completed'',
                  p_amount_usdc = amount_usdc d, p_destination_account_id = None \<rparr>]\<rparr>)"
  using assms by (simp add: processPayoutInternal_def Let_def truthy_str_def)

text \<open>
  Claim C1 fails on the payout side. \<open>processPayoutInternal\<close> never looks at the
  \<open>payouts\<close> table: called twice for a \<open>Completed\<close> deal whose creator has a wallet, with
  a platform balance that covers both transfers, it transfers the amount twice and leaves
  two payout rows with status \<open>Completed\<close> for the deal.
\<close>

theorem second_payout_pays_again:
  assumes "deal_by_id w i = Some d" and "d_status d = Completed"
    and "wallet_of w (creator_id d) = Some wallet" and "wallet \<noteq> []"
    and "0 \<le> math_round (amount_usdc d * 1000000000)"
    and "2 * math_round (amount_usdc d * 1000000000) + RESERVE + TX_FEE \<le> platform_balance (chain w)"
  shows "\<exists>w2. twice (processPayoutInternal i) w = Inr w2 \<and>
           payouts w2 = payouts w @
             [\<lparr> p_deal_id = i, p_method = ''Solana'', p_status = ''Completed'',
                p_amount_usdc = amount_usdc d, p_destination_account_id = None \<rparr>,
              \<lparr> p_deal_id = i, p_method = ''Solana'', p_status = ''Completed'',
                p_amount_usdc = amount_usdc d, p_destination_account_id = None \<rparr>] \<and>
           transfers (chain w2) = transfers (chain w) @
             [(wallet, math_round (amount_usdc d * 1000000000)),
              (wallet, math_round (amount_usdc d * 1000000000))] \<and>
           length (non_failed_payouts w2 i) = length (non_failed_payouts w i) + 2"
proof -
  let ?L = "math_round (amount_usdc d * 1000000000)"
  let ?row = "\<lparr> p_deal_id = i, p_method = ''Solana'', p_status = ''Completed'',
                p_amount_usdc = amount_usdc d, p_destination_account_id = None \<rparr>"
  let ?w1 = "w\<lparr>chain := send_transfer wallet ?L (chain w), payouts := payouts w @ [?row]\<rparr>"
  have b1: "?L + RESERVE \<le> platform_balance (chain w)" using assms(5,6) by (simp add: TX_FEE_def)
  have first: "processPayoutInternal i w = Inr ?w1"
    by (rule processPayoutInternal_ok[OF assms(1,2,3,4) b1])
  have d1: "deal_by_id ?w1 i = Some d" using assms(1) by (simp add: deal_by_id_def)
  have "wallet_of ?w1 (creator_id d) = wallet_of w (creator_id d)"
    by (rule wallet_of_cong) simp
  then have w1: "wallet_of ?w1 (creator_id d) = Some wallet"
    using assms(3) by simp
  have b2: "?L + RESERVE \<le> platform_balance (chain ?w1)"
    using assms(6) by (simp add: send_transfer_def)
  have second: "processPayoutInternal i ?w1 =
      Inr (?w1\<lparr>chain := send_transfer wallet ?L (chain ?w1), payouts := payouts ?w1 @ [?row]\<rparr>)"
    by (rule processPayoutInternal_ok[OF d1 assms(2) w1 assms(4) b2])
  show ?thesis
    using first second
    by (simp add: twice_def send_transfer_def non_failed_payouts_def)
qed

text \<open>The hypotheses hold for the concrete deal once \<open>Completed\<close>: two payouts of half a SOL.\<close>

theorem second_payout_pays_again_witness:
  "deal_by_id (ex_world\<lparr>deals := [ex_deal\<lparr>d_status := Completed\<rparr>]\<rparr>) ''deal-1'' =
     Some (ex_deal\<lparr>d_status := Completed\<rparr>) \<and>
   wallet_of (ex_world\<lparr>deals := [ex_deal\<lparr>d_status := Completed\<rparr>]\<rparr>) (Some ''cre-1'') = Some ''CreWallet'' \<and>
   math_round (amount_usdc ex_deal * 1000000000) = 500000000 \<and>
   (\<exists>w2. twice (processPayoutInternal ''deal-1'') (ex_world\<lparr>deals := [ex_deal\<lparr>d_status := Completed\<rparr>]\<rparr>) = Inr w2 \<and>
      payouts w2 =
        [\<lparr> p_deal_id = ''deal-1'', p_method = ''Solana'', p_status = ''Completed'',
           p_amount_usdc = 1 / 2, p_destination_account_id = None \<rparr>,
         \<lparr> p_deal_id = ''deal-1'', p_method = ''Solana'', p_status = ''Completed'',
           p_amount_usdc = 1 / 2, p_destination_account_id = None \<rparr>] \<and>
      transfers (chain w2) = [(''CreWallet'', 500000000), (''CreWallet'', 500000000)] \<and>
      length (non_failed_payouts w2 ''deal-1'') = 2)"
proof -
  let ?d = "ex_deal\<lparr>d_status := Completed\<rparr>"
  let ?w = "ex_world\<lparr>deals := [?d]\<rparr>"
  have h1: "deal_by_id ?w ''deal-1'' = Some ?d" by code_simp
  have h2: "d_status ?d = Completed" by simp
  have h3: "wallet_of ?w (creator_id ?d) = Some ''CreWallet''" by code_simp
  have h3': "wallet_of ?w (Some ''cre-1'') = Some ''CreWallet''" by code_simp
  have h4: "''CreWallet'' \<noteq> []" by simp
  have L: "math_round (amount_usdc ?d * 1000000000) = 500000000" by code_simp
  have L': "math_round (amount_usdc ex_deal * 1000000000) = 500000000" by code_simp
  have h5: "0 \<le> math_round (amount_usdc ?d * 1000000000)" using L by simp
  have h6: "2 * math_round (amount_usdc ?d * 1000000000) + RESERVE + TX_FEE \<le> platform_balance (chain ?w)"
    by code_simp
  have e: "payouts ?w = []" "transfers (chain ?w) = []" "amount_usdc ?d = 1 / 2"
    "non_failed_payouts ?w ''deal-1'' = []"
    by (simp_all add: ex_world_def ex_deal_def non_failed_payouts_def)
  from second_payout_pays_again[OF h1 h2 h3 h4 h5 h6]
  obtain w2 where A: "twice (processPayoutInternal ''deal-1'') ?w = Inr w2"
    and B: "payouts w2 = payouts ?w @
             [\<lparr> p_deal_id = ''deal-1'', p_method = ''Solana'', p_status = ''Completed'',
                p_amount_usdc = amount_usdc ?d, p_destination_account_id = None \<rparr>,
              \<lparr> p_deal_id = ''deal-1'', p_method = ''Solana'', p_status = ''Completed'',
                p_amount_usdc = amount_usdc ?d, p_destination_account_id = None \<rparr>]"
    and C: "transfers (chain w2) = transfers (chain ?w) @
             [(''CreWallet'', math_round (amount_usdc ?d * 1000000000)),
              (''CreWallet'', math_round (amount_usdc ?d * 1000000000))]"
    and D: "length (non_failed_payouts w2 ''deal-1'') = length (non_failed_payouts ?w ''deal-1'') + 2"
    by blast
  have B': "payouts w2 =
        [\<lparr> p_deal_id = ''deal-1'', p_method = ''Solana'', p_status = ''Completed'',
           p_amount_usdc = 1 / 2, p_destination_account_id = None \<rparr>,
         \<lparr> p_deal_id = ''deal-1'', p_method = ''Solana'', p_status = ''Completed'',
           p_amount_usdc = 1 / 2, p_destination_account_id = None \<rparr>]"
    using B e(1,3) by simp
  have C': "transfers (chain w2) = [(''CreWallet'', 500000000), (''CreWallet'', 500000000)]"
    using C e(2) L by simp
  have D': "length (non_failed_payouts w2 ''deal-1'') = 2"
    using D e(4) by simp
  show ?thesis using h1 h3' L' A B' C' D' by blast
qed

subsection \<open>The refund of the duration sweep, and the duration the ladder reads\<close>

text \<open>
  \<open>processRefund\<close> looks for an escrow event of type \<open>FundEscrow\<close>; the funding paths
  record the type \<open>Created\<close>. Without a \<open>FundEscrow\<close> event it returns at once.
\<close>

lemma processRefund_without_FundEscrow:
  "filter (\<lambda>e. e_event_type e = ''FundEscrow'') (escrow_events w) = [] \<Longrightarrow>
   processRefund i reason w = Inr w"
proof -
  assume a: "filter (\<lambda>e. e_event_type e = ''FundEscrow'') (escrow_events w) = []"
  have "filter (\<lambda>e. e_deal_id e = i \<and> e_event_type e = ''FundEscrow'') (escrow_events w) =
        filter (\<lambda>e. e_deal_id e = i) (filter (\<lambda>e. e_event_type e = ''FundEscrow'') (escrow_events w))"
    by (simp add: conj_commute)
  then show ?thesis using a by (simp add: processRefund_def escrow_event_of_def single_def)
qed

text \<open>A row selected with \<open>'*'\<close> has no proof spec: the duration read from it is the default.\<close>

lemma select_star_durationHours: "row_durationHours (select_star d) = 24"
  by (simp add: row_durationHours_def select_star_def)

text \<open>
  Claim C3 fails on the refund. The concrete deal, funded through \<open>fund-escrow\<close> (which
  records exactly the \<open>Created\<close> event of the concrete world), with score 50 and its 24
  hours over: the sweep sets it to \<open>Failed\<close> with the reason
  \<open>Duration completed (24h) without successful verification\<close> and cancels its pending
  schedules, and \<open>processRefund\<close> returns without any refund: no refund row, no transfer,
  no Stripe refund, and no error recorded.
\<close>

theorem duration_failure_refund_skipped:
  "escrow_events (snd (fund_escrow 0 ''adv-1'' ''deal-1'' ''sig-1'' TxConfirmed
       (ex_world\<lparr>deals := [ex_deal\<lparr>d_status := PendingFunding\<rparr>], escrow_events := []\<rparr>)))
     = escrow_events ex_world \<and>
   completion_candidates (ex_world\<lparr>deals := [ex_deal\<lparr>verification_score := Some 50\<rparr>]\<rparr>)
     = [ex_deal\<lparr>verification_score := Some 50\<rparr>] \<and>
   completionTime ex_world ex_deal = Some 86400000 \<and>
   map d_status (deals (fst (processVerificationCompletion 86400000
       (ex_world\<lparr>deals := [ex_deal\<lparr>verification_score := Some 50\<rparr>]\<rparr>)))) = [Failed] \<and>
   map failure_reason (deals (fst (processVerificationCompletion 86400000
       (ex_world\<lparr>deals := [ex_deal\<lparr>verification_score := Some 50\<rparr>]\<rparr>)))) =
     [Some ''Duration completed (24h) without successful verification''] \<and>
   map vs_status (verification_schedules (fst (processVerificationCompletion 86400000
       (ex_world\<lparr>deals := [ex_deal\<lparr>verification_score := Some 50\<rparr>]\<rparr>)))) =
     [SCancelled, SCancelled, SCancelled] \<and>
   refunds (fst (processVerificationCompletion 86400000
       (ex_world\<lparr>deals := [ex_deal\<lparr>verification_score := Some 50\<rparr>]\<rparr>))) = [] \<and>
   transfers (chain (fst (processVerificationCompletion 86400000
       (ex_world\<lparr>deals := [ex_deal\<lparr>verification_score := Some 50\<rparr>]\<rparr>)))) = [] \<and>
   stripe_refunds (fst (processVerificationCompletion 86400000
       (ex_world\<lparr>deals := [ex_deal\<lparr>verification_score := Some 50\<rparr>]\<rparr>))) = [] \<and>
   dg_failed (snd (processVerificationCompletion 86400000
       (ex_world\<lparr>deals := [ex_deal\<lparr>verification_score := Some 50\<rparr>]\<rparr>))) =
     [\<lparr> dg_deal_id = ''deal-1'', dg_duration_met = True, dg_has_success = False,
        dg_action = ''fail'', dg_settlement_error = None \<rparr>]"
  by code_simp

text \<open>
  The ladder for the duration the handler reads: the interval is a whole number of
  milliseconds, every periodic row lies at or after the first check and strictly before the
  deadline, consecutive periodic rows are one interval apart, and the rows inserted are the
  initial row at \<open>now\<close>, the periodic rows, and one final row at the deadline.
\<close>

lemma next_check_interval:
  "next_check (checkIntervalHours dh) t =
     t + (if dh \<le> 1 / 10 then 100080 else if dh \<le> 24 then 14400000
          else if dh \<le> 72 then 43200000 else 86400000)"
  by (simp add: next_check_def checkIntervalHours_def time_clip_def)

lemma next_check_later: "t < next_check (checkIntervalHours dh) t"
  by (simp add: next_check_interval)

lemma periodic_schedules_rows:
  "s \<in> set (periodic_schedules i dh n dl) \<Longrightarrow>
     vs_deal_id s = i \<and> vs_check_type s = Periodic \<and> vs_status s = SPending \<and>
     n \<le> scheduled_at s \<and> scheduled_at s < dl"
proof (induction i dh n dl rule: periodic_schedules.induct)
  case (1 i dh n dl)
  show ?case
  proof (cases "n < dl")
    case False
    with "1.prems" show ?thesis by (simp add: periodic_schedules.simps[of i dh n dl])
  next
    case True
    from "1.prems" True have
      "s = new_schedule i n Periodic \<or>
       s \<in> set (periodic_schedules i dh (next_check (checkIntervalHours dh) n) dl)"
      by (simp add: periodic_schedules.simps[of i dh n dl])
    then show ?thesis
    proof
      assume "s = new_schedule i n Periodic"
      then show ?thesis using True by (simp add: new_schedule_def)
    next
      assume "s \<in> set (periodic_schedules i dh (next_check (checkIntervalHours dh) n) dl)"
      from "1.IH"[OF True this] next_check_later[of n dh] show ?thesis by simp
    qed
  qed
qed

lemma periodic_schedules_spacing:
  "map scheduled_at (periodic_schedules i dh n dl) =
     map (\<lambda>k. n + int k * (next_check (checkIntervalHours dh) 0))
       [0 ..< length (periodic_schedules i dh n dl)]"
proof (induction i dh n dl rule: periodic_schedules.induct)
  case (1 i dh n dl)
  let ?step = "next_check (checkIntervalHours dh) 0"
  have nx: "next_check (checkIntervalHours dh) n = n + ?step" by (simp add: next_check_interval)
  show ?case
  proof (cases "n < dl")
    case False
    then show ?thesis by (simp add: periodic_schedules.simps[of i dh n dl])
  next
    case True
    let ?rest = "periodic_schedules i dh (next_check (checkIntervalHours dh) n) dl"
    have unf: "periodic_schedules i dh n dl = new_schedule i n Periodic # ?rest"
      using True by (simp add: periodic_schedules.simps[of i dh n dl])
    have ih: "map scheduled_at ?rest = map (\<lambda>k. (n + ?step) + int k * ?step) [0 ..< length ?rest]"
      using "1.IH"[OF True] nx by simp
    have "map (\<lambda>k. n + int k * ?step) [0 ..< Suc (length ?rest)] =
          n # map (\<lambda>k. (n + ?step) + int k * ?step) [0 ..< length ?rest]"
      by (simp add: upt_conv_Cons map_Suc_upt[symmetric] algebra_simps del: upt_Suc)
    then show ?thesis using unf ih by (simp add: new_schedule_def del: upt_Suc)
  qed
qed

lemma create_schedules_ladder:
  "verification_schedules (create_schedules now i row w) =
     verification_schedules w @ [new_schedule i now Initial] @
     periodic_schedules i (row_durationHours row)
       (next_check (checkIntervalHours (row_durationHours row)) now) (deadline_iso (row_deal row)) @
     [new_schedule i (deadline_iso (row_deal row)) Final]"
  by (simp add: create_schedules_def Let_def)

text \<open>
  Claim C7 fails on the interval. For a deal whose proof spec says 48 hours (interval 12
  hours by the handler's own table) and whose deadline is 48 hours away, submit-post
  creates the initial row, periodic rows every 4 hours and the final row: the row it reads
  the duration from has no proof spec, so the duration is always the default 24.
\<close>

theorem submit_post_ladder_ignores_duration:
  "durationHours_of
       (ex_world\<lparr>deals := [ex_deal\<lparr>d_status := PendingVerification, posted_at := None\<rparr>],
                 proof_specs := [\<lparr> ps_deal_id = ''deal-1'', duration_hours = Some 48 \<rparr>],
                 verification_schedules := []\<rparr>)
       (ex_deal\<lparr>d_status := PendingVerification, posted_at := None\<rparr>) = 48 \<and>
   checkIntervalHours 48 = 12 \<and>
   fst (submit_post 0 ''cre-1'' ''deal-1'' ''https://x.com/p/1'' True
       (ex_world\<lparr>deals := [ex_deal\<lparr>d_status := PendingVerification, posted_at := None\<rparr>],
                 proof_specs := [\<lparr> ps_deal_id = ''deal-1'', duration_hours = Some 48 \<rparr>],
                 verification_schedules := []\<rparr>)) = Submitted \<and>
   map (\<lambda>s. (vs_check_type s, scheduled_at s))
     (verification_schedules (snd (submit_post 0 ''cre-1'' ''deal-1'' ''https://x.com/p/1'' True
       (ex_world\<lparr>deals := [ex_deal\<lparr>d_status := PendingVerification, posted_at := None\<rparr>],
                 proof_specs := [\<lparr> ps_deal_id = ''deal-1'', duration_hours = Some 48 \<rparr>],
                 verification_schedules := []\<rparr>)))) =
     [(Initial, 0),
      (Periodic, 14400000), (Periodic, 28800000), (Periodic, 43200000), (Periodic, 57600000),
      (Periodic, 72000000), (Periodic, 86400000), (Periodic, 100800000), (Periodic, 115200000),
      (Periodic, 129600000), (Periodic, 144000000), (Periodic, 158400000),
      (Final, 172800000)]"
  by code_simp

subsection \<open>Doubles: whole numbers below \<open>2^53\<close> are exact\<close>








text \<open>
  The rounding is visible on other numbers: 0.001 hours are 3599.9999999999995 ms in doubles,
  so a deal posted at 0 with that duration is due at 3599 ms, not at 3600.
\<close>

lemma completionTime_rounds_down:
  "completionTime (ex_world\<lparr>proof_specs := [\<lparr> ps_deal_id = ''deal-1'', duration_hours = Some (1 / 1000) \<rparr>]\<rparr>)
     ex_deal = Some 3599"
  by code_simp

text \<open>A deal posted at the end of the range of a \<open>Date\<close> has no completion time.\<close>

lemma completionTime_invalid:
  "completionTime ex_world (ex_deal\<lparr>posted_at := Some 8640000000000000\<rparr>) = None"
  by code_simp

subsection \<open>The completion time of a deal with an allowed duration\<close>






subsection \<open>The sweep: what one candidate changes, and what it leaves alone\<close>











lemma payouts_of_append_other:
  "payouts w' = payouts w @ [row] \<Longrightarrow> p_deal_id row \<noteq> i \<Longrightarrow> payouts_of w' i = payouts_of w i"
  by (simp add: payouts_of_def)

lemma payouts_of_append_same:
  "payouts w' = payouts w @ [row] \<Longrightarrow> p_deal_id row = i \<Longrightarrow> payouts_of w' i = payouts_of w i @ [row]"
  by (simp add: payouts_of_def)













subsection \<open>Duration gating\<close>




end
